theory Spec2Isabelle
  imports Complex_Main "HOL-Library.Sublist" "HOL-Library.Multiset"
begin

section \<open>Python values, dictionaries and exceptions\<close>

text \<open>
  The records of the application are Python dictionaries whose values are \<open>None\<close>,
  numbers, strings or booleans. Numbers (Python \<open>int\<close> and \<open>float\<close>, SQLite
  \<open>INTEGER\<close> and \<open>REAL\<close>) are idealised as real numbers: neither the rounding of
  IEEE doubles nor the difference between \<open>5\<close> and \<open>5.0\<close> is modelled.
  \<open>VNone\<close> is also the SQL \<open>NULL\<close>.
\<close>

datatype val = VNone | VNum real | VStr string | VBool bool

type_synonym dict = "string \<rightharpoonup> val"

datatype error =
    KeyError string
  | TypeError
  | IntegrityError string
  | OperationalError string
  | NotImplementedError string
  | ImportError string
  | AttributeError string

text \<open>\<open>d.get(k)\<close>, \<open>d.get(k, default)\<close> and \<open>d[k]\<close>.\<close>

definition dict_get :: "dict \<Rightarrow> string \<Rightarrow> val" where
  "dict_get d k = (case d k of None \<Rightarrow> VNone | Some v \<Rightarrow> v)"

definition dict_get_default :: "dict \<Rightarrow> string \<Rightarrow> val \<Rightarrow> val" where
  "dict_get_default d k dflt = (case d k of None \<Rightarrow> dflt | Some v \<Rightarrow> v)"

definition dict_item :: "dict \<Rightarrow> string \<Rightarrow> error + val" where
  "dict_item d k = (case d k of None \<Rightarrow> Inl (KeyError k) | Some v \<Rightarrow> Inr v)"

text \<open>
  A bill as the forms hand it over: the scalar entries of the dictionary, and the entry
  \<open>'deductions'\<close> (a list of dictionaries) when the dictionary has that key.
\<close>

record bill_data =
  entries :: dict
  deduction_list :: "dict list option"

text \<open>
  Python arithmetic on the values: \<open>bool\<close> is a subclass of \<open>int\<close>, every other
  non-number raises \<open>TypeError\<close> when added to or subtracted from a number.
\<close>

fun num_of :: "val \<Rightarrow> error + real" where
  "num_of (VNum r) = Inr r"
| "num_of (VBool b) = Inr (if b then 1 else 0)"
| "num_of _ = Inl TypeError"

text \<open>\<open>sum(vs)\<close>: the accumulator starts at \<open>0\<close> and the elements are added left to right.\<close>

fun py_sum_from :: "real \<Rightarrow> val list \<Rightarrow> error + real" where
  "py_sum_from acc [] = Inr acc"
| "py_sum_from acc (v # vs) =
     (case num_of v of Inl e \<Rightarrow> Inl e | Inr r \<Rightarrow> py_sum_from (acc + r) vs)"

definition py_sum :: "val list \<Rightarrow> error + real" where
  "py_sum vs = py_sum_from 0 vs"

section \<open>Computation routines\<close>

subsection \<open>Deposit interest\<close>

text \<open>
  Modelled from the spec: the deposit-interest routine of the EMD refund form
  (\<open>tools/financial/emd_refund\<close>, imported by \<open>app.py\<close>) is not among the sources;
  \<open>PDFGenerator.create_emd_refund_pdf\<close> only prints the figures it is handed
  (\<open>emd_amount\<close>, \<open>interest_rate\<close>, \<open>days_held\<close>, \<open>interest_amount\<close>, \<open>total_refund\<close>).
  The spec: \<open>refund = principal + principal * annualRate/100 * daysHeld/365\<close>, where
  \<open>daysHeld = refundDate - depositDate\<close> in whole days, clamped to zero if negative.
\<close>

definition days_held :: "int \<Rightarrow> int" where
  "days_held d = (if d < 0 then 0 else d)"

definition interest :: "real \<Rightarrow> real \<Rightarrow> int \<Rightarrow> real" where
  "interest p r d = p * r / 100 * real_of_int (days_held d) / 365"

definition refund :: "real \<Rightarrow> real \<Rightarrow> int \<Rightarrow> real" where
  "refund p r d = p + interest p r d"

text \<open>Modelled from the spec: "rounded to 2 decimals", to the nearest hundredth.\<close>

definition round2 :: "real \<Rightarrow> real" where
  "round2 x = real_of_int (round (x * 100)) / 100"

subsection \<open>Deduction breakdown\<close>

text \<open>
  Modelled from the spec: the routine that derives each deduction's amount
  (\<open>tools/calculation/deductions_table\<close>) is not among the sources. The spec: for a list
  of deductions with type, rate and statutory flag, the amount is the fixed value if
  given, else \<open>rate% * base\<close>. Each deduction becomes a dictionary with the keys
  \<open>'type'\<close>, \<open>'amount'\<close>, \<open>'rate'\<close>, \<open>'statutory'\<close> that \<open>save_bill\<close> and the exporters
  read (the shape of \<open>init_sample_data\<close>).
\<close>

record deduction_spec =
  dtype :: string
  fixed :: "real option"
  rate :: real
  statutory :: bool

definition deduction_amount :: "real \<Rightarrow> deduction_spec \<Rightarrow> real" where
  "deduction_amount base d = (case fixed d of Some v \<Rightarrow> v | None \<Rightarrow> rate d / 100 * base)"

definition deduction_entry :: "real \<Rightarrow> deduction_spec \<Rightarrow> dict" where
  "deduction_entry base d =
     [''type'' \<mapsto> VStr (dtype d),
      ''amount'' \<mapsto> VNum (deduction_amount base d),
      ''rate'' \<mapsto> VNum (rate d),
      ''statutory'' \<mapsto> VBool (statutory d)]"

definition deduction_breakdown :: "real \<Rightarrow> deduction_spec list \<Rightarrow> dict list" where
  "deduction_breakdown base ds = map (deduction_entry base) ds"

text \<open>
  From the source (\<open>ExcelHandler.create_bill_excel\<close>, the summary sheet; the same two
  expressions stand in \<open>_add_bill_summary\<close>, \<open>PDFGenerator.create_bill_pdf\<close> and
  \<open>generate_text_bill_report\<close>):
  \<^verbatim>\<open>sum([d.get('amount', 0) for d in bill_data.get('deductions', [])])\<close> and
  \<^verbatim>\<open>bill_data.get('bill_amount', 0) - sum([...])\<close>.
  The currency formatting of the two numbers is not modelled.
\<close>

definition deductions_or_empty :: "bill_data \<Rightarrow> dict list" where
  "deductions_or_empty b = (case deduction_list b of None \<Rightarrow> [] | Some ds \<Rightarrow> ds)"

definition total_deductions :: "bill_data \<Rightarrow> error + real" where
  "total_deductions b =
     py_sum (map (\<lambda>d. dict_get_default d ''amount'' (VNum 0)) (deductions_or_empty b))"

definition net_amount :: "bill_data \<Rightarrow> error + real" where
  "net_amount b =
     (case total_deductions b of
        Inl e \<Rightarrow> Inl e
      | Inr deducted \<Rightarrow>
          (case num_of (dict_get_default (entries b) ''bill_amount'' (VNum 0)) of
             Inl e \<Rightarrow> Inl e
           | Inr amount \<Rightarrow> Inr (amount - deducted)))"

text \<open>
  The bill of the spec's scenario: amount 500000, one fixed deduction of 5000 and one
  of 5 percent of the amount.
\<close>

definition scenario_deductions :: "deduction_spec list" where
  "scenario_deductions =
     [\<lparr>dtype = ''Income Tax'', fixed = Some 5000, rate = 0, statutory = True\<rparr>,
      \<lparr>dtype = ''Security Deposit'', fixed = None, rate = 5, statutory = False\<rparr>]"

definition scenario_bill :: bill_data where
  "scenario_bill =
     \<lparr>entries = [''bill_amount'' \<mapsto> VNum 500000],
      deduction_list = Some (deduction_breakdown 500000 scenario_deductions)\<rparr>"

section \<open>The ledger store\<close>

subsection \<open>Tables, rows and the engine\<close>

text \<open>
  The store is one SQLite file with the tables of \<open>DatabaseManager.init_database\<close>.
  Every table has the columns \<open>id INTEGER PRIMARY KEY AUTOINCREMENT\<close> and
  \<open>created_at TIMESTAMP DEFAULT CURRENT_TIMESTAMP\<close>; a row keeps them apart from its
  other cells. \<open>created_at\<close> is the clock reading in seconds (the text
  \<open>YYYY-MM-DD HH:MM:SS\<close> orders as the seconds do). The table \<open>settings\<close> has neither
  column and no method of \<open>DatabaseManager\<close> reads or writes it; it is left out.
  Row ids are unbounded here (SQLite stops at \<open>2^63 - 1\<close>).
\<close>

datatype affinity = TEXT | NUMERIC | INTEGER | REAL

record column =
  cname :: string
  caffinity :: affinity
  not_null :: bool

record row =
  row_id :: nat
  cells :: dict
  created_at :: nat

text \<open>\<open>last_rowid\<close> is the table's entry in \<open>sqlite_sequence\<close>: the largest id ever given.\<close>

record table =
  rows :: "row list"
  last_rowid :: nat

record database =
  bills :: table
  emd_refunds :: table
  projects :: table
  deductions :: table

definition col :: "string \<Rightarrow> affinity \<Rightarrow> bool \<Rightarrow> column" where
  "col n a nn = \<lparr>cname = n, caffinity = a, not_null = nn\<rparr>"

text \<open>
  The \<open>CREATE TABLE\<close> statements. The declared types \<open>DATE\<close> and \<open>BOOLEAN\<close> have
  NUMERIC affinity in SQLite.
\<close>

definition bills_columns :: "column list" where
  "bills_columns =
     [col ''bill_number'' TEXT True, col ''bill_date'' NUMERIC False,
      col ''contractor_name'' TEXT False, col ''project_name'' TEXT False,
      col ''bill_amount'' REAL False, col ''status'' TEXT False]"

definition emd_refunds_columns :: "column list" where
  "emd_refunds_columns =
     [col ''tender_number'' TEXT True, col ''contractor_name'' TEXT False,
      col ''emd_amount'' REAL False, col ''deposit_date'' NUMERIC False,
      col ''refund_date'' NUMERIC False, col ''interest_rate'' REAL False,
      col ''refund_amount'' REAL False, col ''status'' TEXT False]"

definition projects_columns :: "column list" where
  "projects_columns =
     [col ''project_name'' TEXT True, col ''project_code'' TEXT False,
      col ''contractor_name'' TEXT False, col ''agreement_amount'' REAL False,
      col ''start_date'' NUMERIC False, col ''completion_date'' NUMERIC False,
      col ''status'' TEXT False]"

definition deductions_columns :: "column list" where
  "deductions_columns =
     [col ''bill_id'' INTEGER False, col ''deduction_type'' TEXT False,
      col ''amount'' REAL False, col ''rate'' REAL False,
      col ''is_statutory'' NUMERIC False]"

text \<open>
  Tables by name, as the SQL text names them. A name other than the four of
  \<open>init_database\<close> names no table here (the model does not parse SQL: quoting, letter
  case and schema prefixes of a table name are not covered).
\<close>

definition table_columns :: "string \<Rightarrow> column list option" where
  "table_columns name =
     (if name = ''bills'' then Some bills_columns
      else if name = ''emd_refunds'' then Some emd_refunds_columns
      else if name = ''projects'' then Some projects_columns
      else if name = ''deductions'' then Some deductions_columns
      else None)"

definition get_table :: "string \<Rightarrow> database \<Rightarrow> table option" where
  "get_table name db =
     (if name = ''bills'' then Some (bills db)
      else if name = ''emd_refunds'' then Some (emd_refunds db)
      else if name = ''projects'' then Some (projects db)
      else if name = ''deductions'' then Some (deductions db)
      else None)"

definition put_table :: "string \<Rightarrow> table \<Rightarrow> database \<Rightarrow> database" where
  "put_table name t db =
     (if name = ''bills'' then db\<lparr>bills := t\<rparr>
      else if name = ''emd_refunds'' then db\<lparr>emd_refunds := t\<rparr>
      else if name = ''projects'' then db\<lparr>projects := t\<rparr>
      else if name = ''deductions'' then db\<lparr>deductions := t\<rparr>
      else db)"

text \<open>The file right after \<open>init_database\<close> has created it: four empty tables.\<close>

definition empty_table :: table where
  "empty_table = \<lparr>rows = [], last_rowid = 0\<rparr>"

definition fresh_database :: database where
  "fresh_database =
     \<lparr>bills = empty_table, emd_refunds = empty_table,
      projects = empty_table, deductions = empty_table\<rparr>"

text \<open>
  What SQLite itself computes on values is a parameter of the model: how it writes a
  number as text (for a TEXT column, and for \<open>LIKE\<close>), which texts it reads as a
  number (for a column of numeric affinity), and how it writes \<open>CURRENT_TIMESTAMP\<close>.
\<close>

record engine =
  num_text :: "real \<Rightarrow> string"
  text_num :: "string \<Rightarrow> real option"
  timestamp_text :: "nat \<Rightarrow> string"

text \<open>
  An engine for evaluating the functions on the sample records. It writes a whole
  number in decimal, as SQLite writes an integer, and it reads no text as a number,
  which is what SQLite does with the only texts the samples put into numeric columns,
  their dates (\<open>'2024-01-15'\<close>); the samples never make it write another number or a
  time as text.
\<close>

fun decimal :: "nat \<Rightarrow> string" where
  "decimal n =
     (if n < 10 then [''0123456789'' ! n]
      else decimal (n div 10) @ [''0123456789'' ! (n mod 10)])"

declare decimal.simps [simp del]

definition example_engine :: engine where
  "example_engine =
     \<lparr>num_text = (\<lambda>r. decimal (nat \<lfloor>r\<rfloor>)), text_num = (\<lambda>s. None),
      timestamp_text = (\<lambda>n. [])\<rparr>"

text \<open>Python's \<open>sqlite3\<close> binds a \<open>bool\<close> as the integer it is.\<close>

fun bind_param :: "val \<Rightarrow> val" where
  "bind_param (VBool b) = VNum (if b then 1 else 0)"
| "bind_param v = v"

text \<open>
  Column affinity on insert: a TEXT column turns a number into its text; a column of
  numeric affinity turns a text that reads as a number into that number; everything
  else is stored as it is.
\<close>

fun apply_affinity :: "engine \<Rightarrow> affinity \<Rightarrow> val \<Rightarrow> val" where
  "apply_affinity eng TEXT (VNum r) = VStr (num_text eng r)"
| "apply_affinity eng TEXT v = v"
| "apply_affinity eng a (VStr s) =
     (case text_num eng s of None \<Rightarrow> VStr s | Some r \<Rightarrow> VNum r)"
| "apply_affinity eng a v = v"

text \<open>
  A value that a column of the given affinity stores as Python hands it over: NULL
  anywhere, a text in a TEXT column, a number in a numeric column, and in a numeric
  column also a text that does not read as a number (a date as \<open>'2024-01-15'\<close>).
\<close>

fun stored_verbatim :: "engine \<Rightarrow> affinity \<Rightarrow> val \<Rightarrow> bool" where
  "stored_verbatim eng a VNone = True"
| "stored_verbatim eng a (VBool b) = False"
| "stored_verbatim eng TEXT (VStr s) = True"
| "stored_verbatim eng TEXT (VNum r) = False"
| "stored_verbatim eng a (VStr s) = (text_num eng s = None)"
| "stored_verbatim eng a (VNum r) = True"

definition record_stored_verbatim :: "engine \<Rightarrow> column list \<Rightarrow> dict \<Rightarrow> bool" where
  "record_stored_verbatim eng cols d =
     list_all (\<lambda>c. stored_verbatim eng (caffinity c) (dict_get d (cname c))) cols"

subsection \<open>Statements\<close>

text \<open>
  \<open>INSERT INTO name (c1, ..., cn) VALUES (?, ..., ?)\<close> with the parameters bound in
  order. A column the statement does not list has no default and is NULL; a NULL in
  a \<open>NOT NULL\<close> column raises \<open>sqlite3.IntegrityError\<close> and inserts nothing. With
  \<open>AUTOINCREMENT\<close> the new id is one more than the largest id the table has ever held.
  The result is \<open>cursor.lastrowid\<close>.
\<close>

definition new_cells :: "engine \<Rightarrow> column list \<Rightarrow> (string \<times> val) list \<Rightarrow> dict" where
  "new_cells eng cols params =
     map_of (map (\<lambda>c. (cname c,
                        (case map_of params (cname c) of
                           None \<Rightarrow> VNone
                         | Some v \<Rightarrow> apply_affinity eng (caffinity c) (bind_param v))))
                 cols)"

definition violated_not_null :: "column list \<Rightarrow> dict \<Rightarrow> string option" where
  "violated_not_null cols cs =
     map_option cname (find (\<lambda>c. not_null c \<and> cs (cname c) = Some VNone) cols)"

definition next_rowid :: "table \<Rightarrow> nat" where
  "next_rowid t = Suc (fold max (map row_id (rows t)) (last_rowid t))"

definition insert_row ::
  "engine \<Rightarrow> string \<Rightarrow> nat \<Rightarrow> (string \<times> val) list \<Rightarrow> database \<Rightarrow> error + (nat \<times> database)" where
  "insert_row eng name now params db =
     (case (table_columns name, get_table name db) of
        (Some cols, Some t) \<Rightarrow>
          (let cs = new_cells eng cols params in
           case violated_not_null cols cs of
             Some c \<Rightarrow> Inl (IntegrityError (''NOT NULL constraint failed: '' @ name @ ''.'' @ c))
           | None \<Rightarrow>
               (let i = next_rowid t;
                    r = \<lparr>row_id = i, cells = cs, created_at = now\<rparr>
                in Inr (i, put_table name (t\<lparr>rows := rows t @ [r], last_rowid := i\<rparr>) db)))
      | _ \<Rightarrow> Inl (OperationalError (''no such table: '' @ name)))"

text \<open>
  \<open>DELETE FROM name WHERE id = ?\<close>; the result is \<open>cursor.rowcount\<close>. The schema
  declares \<open>deductions.bill_id REFERENCES bills (id)\<close>, but SQLite enforces foreign keys
  only after \<open>PRAGMA foreign_keys = ON\<close>, which the code never issues, and the
  constraint names no \<open>ON DELETE\<close> action: a delete touches the named table only.
\<close>

definition delete_row :: "string \<Rightarrow> nat \<Rightarrow> database \<Rightarrow> error + (nat \<times> database)" where
  "delete_row name record_id db =
     (case get_table name db of
        Some t \<Rightarrow>
          (let kept = filter (\<lambda>r. row_id r \<noteq> record_id) (rows t)
           in Inr (length (rows t) - length kept, put_table name (t\<lparr>rows := kept\<rparr>) db))
      | None \<Rightarrow> Inl (OperationalError (''no such table: '' @ name)))"

text \<open>\<open>ORDER BY created_at DESC\<close>; rows of one second are left in the order of their ids.\<close>

definition order_by_created_at_desc :: "row list \<Rightarrow> row list" where
  "order_by_created_at_desc rs = sort_key (\<lambda>r. - int (created_at r)) rs"

text \<open>\<open>LIMIT n\<close>: a negative \<open>n\<close> is no upper bound in SQLite.\<close>

definition sql_limit :: "int \<Rightarrow> row list \<Rightarrow> row list" where
  "sql_limit n rs = (if n < 0 then rs else take (nat n) rs)"

text \<open>
  \<open>x LIKE pattern\<close> without \<open>ESCAPE\<close>: \<open>%\<close> matches any run of characters, \<open>_\<close> any one
  character, and every other character matches itself, the ASCII letters without
  regard to case (SQLite's default; \<open>PRAGMA case_sensitive_like\<close> is never issued).
\<close>

definition ascii_lower :: "char \<Rightarrow> char" where
  "ascii_lower c =
     (case map_of (zip ''ABCDEFGHIJKLMNOPQRSTUVWXYZ'' ''abcdefghijklmnopqrstuvwxyz'') c of
        None \<Rightarrow> c
      | Some l \<Rightarrow> l)"

fun like_match :: "string \<Rightarrow> string \<Rightarrow> bool" where
  "like_match [] s = (s = [])"
| "like_match (p # ps) [] = (p = CHR ''%'' \<and> like_match ps [])"
| "like_match (p # ps) (c # cs) =
     (if p = CHR ''%'' then like_match ps (c # cs) \<or> like_match (p # ps) cs
      else (p = CHR ''_'' \<or> ascii_lower p = ascii_lower c) \<and> like_match ps cs)"

text \<open>A NULL operand makes \<open>LIKE\<close> NULL, which selects nothing; a number is matched as its text.\<close>

fun sql_like :: "engine \<Rightarrow> string \<Rightarrow> val \<Rightarrow> bool" where
  "sql_like eng pat (VStr s) = like_match pat s"
| "sql_like eng pat (VNum r) = like_match pat (num_text eng r)"
| "sql_like eng pat (VBool b) = like_match pat (num_text eng (if b then 1 else 0))"
| "sql_like eng pat VNone = False"

text \<open>The value of a column of a row, \<open>id\<close> and \<open>created_at\<close> included.\<close>

definition column_value :: "engine \<Rightarrow> row \<Rightarrow> string \<Rightarrow> val option" where
  "column_value eng r c =
     (if c = ''id'' then Some (VNum (real (row_id r)))
      else if c = ''created_at'' then Some (VStr (timestamp_text eng (created_at r)))
      else cells r c)"

subsection \<open>Connections\<close>

text \<open>
  \<open>with sqlite3.connect(self.db_path) as conn:\<close> opens a connection on the file;
  statements change the connection's pending state (the first \<open>INSERT\<close> or \<open>DELETE\<close>
  opens a transaction), \<open>conn.commit()\<close> writes it to the file, and leaving the block
  commits when the body returned and rolls back when it raised.
\<close>

record connection =
  committed :: database
  pending :: database

definition connect :: "database \<Rightarrow> connection" where
  "connect db = \<lparr>committed = db, pending = db\<rparr>"

definition commit :: "connection \<Rightarrow> connection" where
  "commit c = c\<lparr>committed := pending c\<rparr>"

definition rollback :: "connection \<Rightarrow> connection" where
  "rollback c = c\<lparr>pending := committed c\<rparr>"

definition with_connection ::
  "database \<Rightarrow> (connection \<Rightarrow> (error + 'a) \<times> connection) \<Rightarrow> (error + 'a) \<times> database" where
  "with_connection db body =
     (case body (connect db) of
        (Inl e, c) \<Rightarrow> (Inl e, committed (rollback c))
      | (Inr v, c) \<Rightarrow> (Inr v, committed (commit c)))"

definition execute_insert ::
  "engine \<Rightarrow> string \<Rightarrow> nat \<Rightarrow> (string \<times> val) list \<Rightarrow> connection \<Rightarrow> (error + nat) \<times> connection" where
  "execute_insert eng name now params c =
     (case insert_row eng name now params (pending c) of
        Inl e \<Rightarrow> (Inl e, c)
      | Inr (i, db') \<Rightarrow> (Inr i, c\<lparr>pending := db'\<rparr>))"

definition execute_delete ::
  "string \<Rightarrow> nat \<Rightarrow> connection \<Rightarrow> (error + nat) \<times> connection" where
  "execute_delete name record_id c =
     (case delete_row name record_id (pending c) of
        Inl e \<Rightarrow> (Inl e, c)
      | Inr (n, db') \<Rightarrow> (Inr n, c\<lparr>pending := db'\<rparr>))"

subsection \<open>The operations of \<open>DatabaseManager\<close>\<close>

text \<open>
  Every operation takes the file's state and returns its result with the state the
  file is left in; \<open>now\<close> is the clock reading of the call.
  The loop of \<open>save_bill\<close> over \<open>bill_data['deductions']\<close>: \<open>deduction['type']\<close> and
  \<open>deduction['amount']\<close> raise \<open>KeyError\<close> when missing, \<open>rate\<close> and \<open>statutory\<close>
  default to \<open>0\<close> and \<open>False\<close>.
\<close>

fun save_deductions ::
  "engine \<Rightarrow> nat \<Rightarrow> nat \<Rightarrow> dict list \<Rightarrow> connection \<Rightarrow> (error + unit) \<times> connection" where
  "save_deductions eng now bill_id [] c = (Inr (), c)"
| "save_deductions eng now bill_id (deduction # ds) c =
     (case dict_item deduction ''type'' of
        Inl e \<Rightarrow> (Inl e, c)
      | Inr ty \<Rightarrow>
     (case dict_item deduction ''amount'' of
        Inl e \<Rightarrow> (Inl e, c)
      | Inr amount \<Rightarrow>
     (case execute_insert eng ''deductions'' now
             [(''bill_id'', VNum (real bill_id)),
              (''deduction_type'', ty),
              (''amount'', amount),
              (''rate'', dict_get_default deduction ''rate'' (VNum 0)),
              (''is_statutory'', dict_get_default deduction ''statutory'' (VBool False))] c of
        (Inl e, c') \<Rightarrow> (Inl e, c')
      | (Inr _, c') \<Rightarrow> save_deductions eng now bill_id ds c')))"

text \<open>The parameter tuples of the three \<open>INSERT\<close> statements, column by column.\<close>

definition bill_params :: "bill_data \<Rightarrow> (string \<times> val) list" where
  "bill_params b =
     [(''bill_number'', dict_get (entries b) ''bill_number''),
      (''bill_date'', dict_get (entries b) ''bill_date''),
      (''contractor_name'', dict_get (entries b) ''contractor_name''),
      (''project_name'', dict_get (entries b) ''project_name''),
      (''bill_amount'', dict_get (entries b) ''bill_amount''),
      (''status'', dict_get_default (entries b) ''status'' (VStr ''Active''))]"

definition emd_refund_params :: "dict \<Rightarrow> (string \<times> val) list" where
  "emd_refund_params emd_data =
     [(''tender_number'', dict_get emd_data ''tender_number''),
      (''contractor_name'', dict_get emd_data ''contractor_name''),
      (''emd_amount'', dict_get emd_data ''emd_amount''),
      (''deposit_date'', dict_get emd_data ''deposit_date''),
      (''refund_date'', dict_get emd_data ''refund_date''),
      (''interest_rate'', dict_get emd_data ''interest_rate''),
      (''refund_amount'', dict_get emd_data ''refund_amount''),
      (''status'', dict_get_default emd_data ''status'' (VStr ''Processed''))]"

definition project_params :: "dict \<Rightarrow> (string \<times> val) list" where
  "project_params project_data =
     [(''project_name'', dict_get project_data ''project_name''),
      (''project_code'', dict_get project_data ''project_code''),
      (''contractor_name'', dict_get project_data ''contractor_name''),
      (''agreement_amount'', dict_get project_data ''agreement_amount''),
      (''start_date'', dict_get project_data ''start_date''),
      (''completion_date'', dict_get project_data ''completion_date''),
      (''status'', dict_get_default project_data ''status'' (VStr ''Active''))]"

definition save_bill ::
  "engine \<Rightarrow> nat \<Rightarrow> bill_data \<Rightarrow> database \<Rightarrow> (error + nat) \<times> database" where
  "save_bill eng now b db =
     with_connection db (\<lambda>conn.
       case execute_insert eng ''bills'' now (bill_params b) conn of
         (Inl e, c1) \<Rightarrow> (Inl e, c1)
       | (Inr bill_id, c1) \<Rightarrow>
           (case (case deduction_list b of
                    None \<Rightarrow> (Inr (), c1)
                  | Some ds \<Rightarrow> save_deductions eng now bill_id ds c1) of
              (Inl e, c2) \<Rightarrow> (Inl e, c2)
            | (Inr _, c2) \<Rightarrow> (Inr bill_id, commit c2)))"

definition save_emd_refund ::
  "engine \<Rightarrow> nat \<Rightarrow> dict \<Rightarrow> database \<Rightarrow> (error + nat) \<times> database" where
  "save_emd_refund eng now emd_data db =
     with_connection db (\<lambda>conn.
       case execute_insert eng ''emd_refunds'' now (emd_refund_params emd_data) conn of
         (Inl e, c1) \<Rightarrow> (Inl e, c1)
       | (Inr i, c1) \<Rightarrow> (Inr i, commit c1))"

definition save_project ::
  "engine \<Rightarrow> nat \<Rightarrow> dict \<Rightarrow> database \<Rightarrow> (error + nat) \<times> database" where
  "save_project eng now project_data db =
     with_connection db (\<lambda>conn.
       case execute_insert eng ''projects'' now (project_params project_data) conn of
         (Inl e, c1) \<Rightarrow> (Inl e, c1)
       | (Inr i, c1) \<Rightarrow> (Inr i, commit c1))"

text \<open>
  \<open>get_bills(limit=None)\<close> and its two siblings: \<open>if limit:\<close> appends \<open>LIMIT\<close> only for a
  limit that is neither \<open>None\<close> nor \<open>0\<close>. The result (a DataFrame) is the list of rows.
\<close>

definition select_newest_first :: "table \<Rightarrow> int option \<Rightarrow> row list" where
  "select_newest_first t limit =
     (let ordered = order_by_created_at_desc (rows t) in
      case limit of
        None \<Rightarrow> ordered
      | Some n \<Rightarrow> if n = 0 then ordered else sql_limit n ordered)"

definition get_bills :: "database \<Rightarrow> int option \<Rightarrow> row list" where
  "get_bills db limit = select_newest_first (bills db) limit"

definition get_emd_refunds :: "database \<Rightarrow> int option \<Rightarrow> row list" where
  "get_emd_refunds db limit = select_newest_first (emd_refunds db) limit"

definition get_projects :: "database \<Rightarrow> int option \<Rightarrow> row list" where
  "get_projects db limit = select_newest_first (projects db) limit"

text \<open>
  \<open>search_records(table, search_term, columns=None)\<close>: the default columns of the
  table when \<open>columns\<close> is \<open>None\<close> or empty, an empty frame when there are none,
  else one \<open>LIKE '%term%'\<close> per column joined by \<open>OR\<close>, newest first.
\<close>

definition default_search_columns :: "string \<Rightarrow> string list" where
  "default_search_columns table =
     (if table = ''bills'' then [''bill_number'', ''contractor_name'', ''project_name'']
      else if table = ''emd_refunds'' then [''tender_number'', ''contractor_name'']
      else if table = ''projects'' then [''project_name'', ''project_code'', ''contractor_name'']
      else [])"

definition row_matches :: "engine \<Rightarrow> string list \<Rightarrow> string \<Rightarrow> row \<Rightarrow> bool" where
  "row_matches eng columns search_term r =
     list_ex (\<lambda>c. case column_value eng r c of
                     None \<Rightarrow> False
                   | Some v \<Rightarrow> sql_like eng (''%'' @ search_term @ ''%'') v) columns"

definition search_records ::
  "engine \<Rightarrow> database \<Rightarrow> string \<Rightarrow> string \<Rightarrow> string list option \<Rightarrow> error + row list" where
  "search_records eng db table search_term columns =
     (let columns =
            (case columns of
               None \<Rightarrow> default_search_columns table
             | Some cs \<Rightarrow> if cs = [] then default_search_columns table else cs)
      in if columns = [] then Inr []
         else
           (case (table_columns table, get_table table db) of
              (Some cols, Some t) \<Rightarrow>
                (case find (\<lambda>c. c \<notin> set (''id'' # ''created_at'' # map cname cols)) columns of
                   None \<Rightarrow> Inr (order_by_created_at_desc
                                   (filter (row_matches eng columns search_term) (rows t)))
                 | Some c \<Rightarrow> Inl (OperationalError (''no such column: '' @ c)))
            | _ \<Rightarrow> Inl (OperationalError (''no such table: '' @ table))))"

text \<open>\<open>delete_record(table, record_id)\<close> returns \<open>cursor.rowcount > 0\<close>.\<close>

definition delete_record :: "database \<Rightarrow> string \<Rightarrow> nat \<Rightarrow> (error + bool) \<times> database" where
  "delete_record db table record_id =
     with_connection db (\<lambda>conn.
       case execute_delete table record_id conn of
         (Inl e, c1) \<Rightarrow> (Inl e, c1)
       | (Inr rowcount, c1) \<Rightarrow> (Inr (rowcount > 0), commit c1))"

subsection \<open>Sample records\<close>

text \<open>The bill, the refund and the project of \<open>init_sample_data\<close>.\<close>

definition sample_bill :: bill_data where
  "sample_bill =
     \<lparr>entries =
        [''bill_number'' \<mapsto> VStr ''B001/2024'',
         ''bill_date'' \<mapsto> VStr ''2024-01-15'',
         ''contractor_name'' \<mapsto> VStr ''ABC Construction'',
         ''project_name'' \<mapsto> VStr ''Road Construction Project'',
         ''bill_amount'' \<mapsto> VNum 500000,
         ''status'' \<mapsto> VStr ''Active''],
      deduction_list = Some
        [[''type'' \<mapsto> VStr ''Income Tax'', ''amount'' \<mapsto> VNum 5000,
          ''rate'' \<mapsto> VNum 1, ''statutory'' \<mapsto> VBool True],
         [''type'' \<mapsto> VStr ''Security Deposit'', ''amount'' \<mapsto> VNum 25000,
          ''rate'' \<mapsto> VNum 5, ''statutory'' \<mapsto> VBool False]]\<rparr>"

definition sample_emd :: dict where
  "sample_emd =
     [''tender_number'' \<mapsto> VStr ''T001/2024'',
      ''contractor_name'' \<mapsto> VStr ''XYZ Builders'',
      ''emd_amount'' \<mapsto> VNum 50000,
      ''deposit_date'' \<mapsto> VStr ''2024-01-10'',
      ''refund_date'' \<mapsto> VStr ''2024-02-10'',
      ''interest_rate'' \<mapsto> VNum 6,
      ''refund_amount'' \<mapsto> VNum 50500,
      ''status'' \<mapsto> VStr ''Processed'']"

definition sample_project :: dict where
  "sample_project =
     [''project_name'' \<mapsto> VStr ''Bridge Construction'',
      ''project_code'' \<mapsto> VStr ''PWD/BRG/001'',
      ''contractor_name'' \<mapsto> VStr ''PQR Infrastructure'',
      ''agreement_amount'' \<mapsto> VNum 2000000,
      ''start_date'' \<mapsto> VStr ''2024-01-01'',
      ''completion_date'' \<mapsto> VStr ''2024-12-31'',
      ''status'' \<mapsto> VStr ''Active'']"

text \<open>
  The value a save binds to a column: \<open>record.get(column)\<close>, and for \<open>status\<close>
  \<open>record.get('status', default)\<close>.
\<close>

definition saved_value :: "dict \<Rightarrow> string \<Rightarrow> string \<Rightarrow> val" where
  "saved_value d default_status k =
     (if k = ''status'' then dict_get_default d ''status'' (VStr default_status)
      else dict_get d k)"

text \<open>A bill whose number is the number 7, not a text.\<close>

definition numbered_bill :: bill_data where
  "numbered_bill = \<lparr>entries = [''bill_number'' \<mapsto> VNum 7], deduction_list = None\<rparr>"

text \<open>The sample bill with the amount of its second deduction left out.\<close>

definition sample_bill_missing_amount :: bill_data where
  "sample_bill_missing_amount =
     sample_bill\<lparr>deduction_list := Some
        [[''type'' \<mapsto> VStr ''Income Tax'', ''amount'' \<mapsto> VNum 5000,
          ''rate'' \<mapsto> VNum 1, ''statutory'' \<mapsto> VBool True],
         [''type'' \<mapsto> VStr ''Security Deposit'', ''rate'' \<mapsto> VNum 5]]\<rparr>"

text \<open>
  \<open>init_sample_data\<close>: a new \<open>DatabaseManager\<close> on the file, then the three saves in
  turn; an exception of one save ends the function. The result is the three ids.
\<close>

definition init_sample_data ::
  "engine \<Rightarrow> nat \<Rightarrow> database \<Rightarrow> (error + nat \<times> nat \<times> nat) \<times> database" where
  "init_sample_data eng now db =
     (case save_bill eng now sample_bill db of
        (Inl e, db1) \<Rightarrow> (Inl e, db1)
      | (Inr bill_id, db1) \<Rightarrow>
     (case save_emd_refund eng now sample_emd db1 of
        (Inl e, db2) \<Rightarrow> (Inl e, db2)
      | (Inr emd_id, db2) \<Rightarrow>
     (case save_project eng now sample_project db2 of
        (Inl e, db3) \<Rightarrow> (Inl e, db3)
      | (Inr project_id, db3) \<Rightarrow> (Inr (bill_id, emd_id, project_id), db3))))"

text \<open>
  A file that holds one bill whose contractor is written in small letters, for the
  search examples.
\<close>

definition lowercase_row :: row where
  "lowercase_row =
     \<lparr>row_id = 1,
      cells = [''bill_number'' \<mapsto> VStr ''B002/2024'',
               ''bill_date'' \<mapsto> VStr ''2024-03-01'',
               ''contractor_name'' \<mapsto> VStr ''abc construction'',
               ''project_name'' \<mapsto> VStr ''Road Repair'',
               ''bill_amount'' \<mapsto> VNum 1000,
               ''status'' \<mapsto> VStr ''Active''],
      created_at = 100\<rparr>"

definition lowercase_database :: database where
  "lowercase_database = fresh_database\<lparr>bills := \<lparr>rows = [lowercase_row], last_rowid = 1\<rparr>\<rparr>"

section \<open>Document exporters\<close>

text \<open>
  The modules set \<open>REPORTLAB_AVAILABLE\<close> and \<open>OPENPYXL_AVAILABLE\<close> when they are
  imported; the functions below take the flag as their first argument. What the
  libraries themselves do (ReportLab building a document from the record, pandas
  writing sheets with its \<open>openpyxl\<close> engine, openpyxl saving a formatted workbook) is
  a parameter that returns the bytes or the library's exception. A render call returns
  the bytes, or the path it was told to write to.
\<close>

datatype pdf_generator = PDFGenerator | PDFGeneratorFallback

datatype rendering = Bytes string | Path string

definition rendered :: "string option \<Rightarrow> string \<Rightarrow> rendering" where
  "rendered output_path bytes = (case output_path of None \<Rightarrow> Bytes bytes | Some p \<Rightarrow> Path p)"

text \<open>\<open>PDFGenerator.__init__\<close> and the factory \<open>get_pdf_generator\<close>.\<close>

definition new_pdf_generator :: "bool \<Rightarrow> error + pdf_generator" where
  "new_pdf_generator reportlab_available =
     (if \<not> reportlab_available
      then Inl (ImportError
        ''ReportLab is required for PDF generation. Install with: pip install reportlab'')
      else Inr PDFGenerator)"

definition get_pdf_generator :: "bool \<Rightarrow> error + pdf_generator" where
  "get_pdf_generator reportlab_available =
     (if reportlab_available then new_pdf_generator reportlab_available
      else Inr PDFGeneratorFallback)"

text \<open>Only \<open>PDFGeneratorFallback\<close> sets the attribute \<open>available\<close>.\<close>

fun available :: "pdf_generator \<Rightarrow> error + bool" where
  "available PDFGeneratorFallback = Inr False"
| "available PDFGenerator = Inl (AttributeError ''available'')"

definition requires_reportlab :: error where
  "requires_reportlab =
     NotImplementedError ''PDF generation requires ReportLab. Install with: pip install reportlab''"

definition create_bill_pdf ::
  "(bill_data \<Rightarrow> error + string) \<Rightarrow> pdf_generator \<Rightarrow> bill_data \<Rightarrow> string option \<Rightarrow> error + rendering" where
  "create_bill_pdf build g bill output_path =
     (case g of
        PDFGeneratorFallback \<Rightarrow> Inl requires_reportlab
      | PDFGenerator \<Rightarrow>
          (case build bill of Inl e \<Rightarrow> Inl e | Inr bytes \<Rightarrow> Inr (rendered output_path bytes)))"

definition create_emd_refund_pdf ::
  "(dict \<Rightarrow> error + string) \<Rightarrow> pdf_generator \<Rightarrow> dict \<Rightarrow> string option \<Rightarrow> error + rendering" where
  "create_emd_refund_pdf build g emd_data output_path =
     (case g of
        PDFGeneratorFallback \<Rightarrow> Inl requires_reportlab
      | PDFGenerator \<Rightarrow>
          (case build emd_data of Inl e \<Rightarrow> Inl e | Inr bytes \<Rightarrow> Inr (rendered output_path bytes)))"

definition create_project_report_pdf ::
  "(dict \<Rightarrow> error + string) \<Rightarrow> pdf_generator \<Rightarrow> dict \<Rightarrow> string option \<Rightarrow> error + rendering" where
  "create_project_report_pdf build g project_data output_path =
     (case g of
        PDFGeneratorFallback \<Rightarrow> Inl requires_reportlab
      | PDFGenerator \<Rightarrow>
          (case build project_data of
             Inl e \<Rightarrow> Inl e
           | Inr bytes \<Rightarrow> Inr (rendered output_path bytes)))"

text \<open>
  \<open>ExcelHandler.write_excel_file\<close> hands the data to
  \<open>pd.ExcelWriter(..., engine='openpyxl')\<close>: the engine is fixed, so without openpyxl the
  writer cannot be made and the call raises the import's error. \<open>create_formatted_excel\<close>
  calls it when openpyxl is not available (\<open># Fallback to basic Excel without formatting\<close>).
\<close>

definition quoted :: "string \<Rightarrow> string" where
  "quoted s = [CHR 0x27] @ s @ [CHR 0x27]"

definition missing_openpyxl :: error where
  "missing_openpyxl = ImportError (''No module named '' @ quoted ''openpyxl'')"

definition write_excel_file ::
  "bool \<Rightarrow> ('d \<Rightarrow> error + string) \<Rightarrow> 'd \<Rightarrow> string option \<Rightarrow> error + rendering" where
  "write_excel_file openpyxl_available excel_writer data file_path =
     (if \<not> openpyxl_available then Inl missing_openpyxl
      else (case excel_writer data of
              Inl e \<Rightarrow> Inl e
            | Inr bytes \<Rightarrow> Inr (rendered file_path bytes)))"

definition create_formatted_excel ::
  "bool \<Rightarrow> ('d \<Rightarrow> error + string) \<Rightarrow> ('d \<Rightarrow> string \<Rightarrow> error + string) \<Rightarrow>
   'd \<Rightarrow> string option \<Rightarrow> string \<Rightarrow> error + rendering" where
  "create_formatted_excel openpyxl_available excel_writer workbook data file_path title =
     (if \<not> openpyxl_available
      then write_excel_file openpyxl_available excel_writer data file_path
      else (case workbook data title of
              Inl e \<Rightarrow> Inl e
            | Inr bytes \<Rightarrow> Inr (rendered file_path bytes)))"

section \<open>Importing EMD sheets\<close>

text \<open>
  A DataFrame is its column labels and its rows; a missing cell (\<open>NaN\<close>, \<open>NaT\<close>, \<open>None\<close>)
  is \<open>VNone\<close>, and a row has one cell per column. A label is what the header cell of
  the sheet held: a text or a number. \<open>pd.to_datetime\<close> and \<open>pd.to_numeric\<close> with
  \<open>errors='coerce'\<close> are parameters that convert one cell; with \<open>errors='raise'\<close> they
  are parameters that say whether a column converts.
\<close>

datatype label = Label string | IntLabel int | FloatLabel real

record dataframe =
  df_columns :: "label list"
  df_rows :: "val list list"

fun is_text_label :: "label \<Rightarrow> bool" where
  "is_text_label (Label s) = True"
| "is_text_label l = False"

definition text_labels :: "label list \<Rightarrow> string list" where
  "text_labels ls = concat (map (\<lambda>l. case l of Label s \<Rightarrow> [s] | _ \<Rightarrow> []) ls)"

text \<open>\<open>s.lower().replace(' ', '_')\<close>, on ASCII letters.\<close>

definition normalize_column :: "string \<Rightarrow> string" where
  "normalize_column c = map (\<lambda>x. if x = CHR '' '' then CHR ''_'' else x) (map ascii_lower c)"

text \<open>
  \<open>df.columns.str.lower().str.replace(' ', '_')\<close>. pandas gives the accessor \<open>.str\<close> only
  to an index that holds a text: for the index of a frame without columns and for
  headers that are all numbers it raises \<open>AttributeError\<close> (the text below; later
  versions of pandas add the kind of the values). Under the accessor a label that is not
  a text becomes \<open>NaN\<close>.
\<close>

definition str_accessor_error :: error where
  "str_accessor_error = AttributeError ''Can only use .str accessor with string values!''"

definition normalized_labels :: "label list \<Rightarrow> error + string option list" where
  "normalized_labels ls =
     (if \<not> list_ex is_text_label ls then Inl str_accessor_error
      else Inr (map (\<lambda>l. case l of Label s \<Rightarrow> Some (normalize_column s) | _ \<Rightarrow> None) ls))"

text \<open>The loop \<open>for col in required: if col not in labels: missing.append(col)\<close>.\<close>

definition missing_columns :: "string list \<Rightarrow> string option list \<Rightarrow> string list" where
  "missing_columns required labels = filter (\<lambda>c. Some c \<notin> set labels) required"

text \<open>\<open>sep.join(xs)\<close>.\<close>

fun str_join :: "string \<Rightarrow> string list \<Rightarrow> string" where
  "str_join sep [] = []"
| "str_join sep [x] = x"
| "str_join sep (x # y # ys) = x @ sep @ str_join sep (y # ys)"

definition expected_columns :: "string list" where
  "expected_columns =
     [''tender_number'', ''contractor_name'', ''emd_amount'', ''deposit_date'', ''status'']"

text \<open>\<open>df[col] = f(df[col])\<close>, cell by cell.\<close>

definition map_column :: "(val \<Rightarrow> val) \<Rightarrow> string \<Rightarrow> dataframe \<Rightarrow> dataframe" where
  "map_column f name df =
     df\<lparr>df_rows := map (\<lambda>r. map (\<lambda>(c, v). if c = Label name then f v else v)
                                   (zip (df_columns df) r))
                         (df_rows df)\<rparr>"

text \<open>
  \<open>df.dropna(subset=cols)\<close>: \<open>KeyError\<close> (with the list of the absent labels as its text)
  when a label of \<open>cols\<close> is no column, else the rows with a value in each of \<open>cols\<close>.
\<close>

definition py_repr_list :: "string list \<Rightarrow> string" where
  "py_repr_list xs = ''['' @ str_join '', '' (map quoted xs) @ '']''"

definition dropna :: "string list \<Rightarrow> dataframe \<Rightarrow> error + dataframe" where
  "dropna labels df =
     (let absent = filter (\<lambda>c. Label c \<notin> set (df_columns df)) labels in
      if absent \<noteq> [] then Inl (KeyError (py_repr_list absent))
      else Inr (df\<lparr>df_rows :=
                  filter (\<lambda>r. list_all (\<lambda>(c, v). c \<notin> Label ` set labels \<or> v \<noteq> VNone)
                                        (zip (df_columns df) r))
                         (df_rows df)\<rparr>))"

text \<open>\<open>str(e)\<close>.\<close>

fun error_text :: "error \<Rightarrow> string" where
  "error_text (KeyError s) = s"
| "error_text TypeError = []"
| "error_text (IntegrityError s) = s"
| "error_text (OperationalError s) = s"
| "error_text (NotImplementedError s) = s"
| "error_text (ImportError s) = s"
| "error_text (AttributeError s) = s"

text \<open>
  \<open>ExcelHandler.process_emd_excel\<close>. The argument is what \<open>read_excel_file\<close> gave: the
  frame, or the text of the exception it raised (\<open>Error reading Excel file: ...\<close>).
  The whole body stands in \<open>try ... except Exception\<close>, so every exception becomes the
  second component of the result. The loop over the expected columns evaluates
  \<open>df.columns.str...\<close> in its first round, where the accessor may raise.
\<close>

definition process_emd_excel ::
  "(val \<Rightarrow> val) \<Rightarrow> (val \<Rightarrow> val) \<Rightarrow> string + dataframe \<Rightarrow> dataframe option \<times> string option" where
  "process_emd_excel to_datetime to_numeric read_result =
     (case read_result of
        Inl msg \<Rightarrow> (None, Some (''Error processing EMD Excel file: '' @ msg))
      | Inr df \<Rightarrow>
          (case normalized_labels (df_columns df) of
             Inl e \<Rightarrow> (None, Some (''Error processing EMD Excel file: '' @ error_text e))
           | Inr labels \<Rightarrow>
          (let missing = missing_columns expected_columns labels in
           if missing \<noteq> [] then (None, Some (''Missing columns: '' @ str_join '', '' missing))
           else
             (let p1 = (if Label ''deposit_date'' \<in> set (df_columns df)
                        then map_column to_datetime ''deposit_date'' df else df);
                  p2 = (if Label ''emd_amount'' \<in> set (df_columns p1)
                        then map_column to_numeric ''emd_amount'' p1 else p1)
              in case dropna [''tender_number'', ''emd_amount''] p2 of
                   Inl e \<Rightarrow> (None, Some (''Error processing EMD Excel file: '' @ error_text e))
                 | Inr processed_df \<Rightarrow> (Some processed_df, None)))))"

text \<open>
  \<open>ExcelHandler.validate_excel_structure(df, required_columns)\<close> returns the errors and
  the warnings. Nothing in it catches the exceptions of \<open>df.columns.str\<close>, of
  \<open>', '.join(empty_columns)\<close> (a \<open>TypeError\<close> when an empty column has a number as its
  label) and of \<open>col.lower()\<close> (an \<open>AttributeError\<close> for a number); only the two
  conversions of a column stand in \<open>try\<close>. \<open>df[col]\<close> of a label that occurs twice is a
  frame, which neither conversion takes.
\<close>

definition df_empty :: "dataframe \<Rightarrow> bool" where
  "df_empty df = (df_columns df = [] \<or> df_rows df = [])"

definition column_cells :: "dataframe \<Rightarrow> nat \<Rightarrow> val list" where
  "column_cells df i = map (\<lambda>r. if i < length r then r ! i else VNone) (df_rows df)"

text \<open>Python compares and hashes the labels \<open>1\<close> and \<open>1.0\<close> as equal.\<close>

fun label_key :: "label \<Rightarrow> string + real" where
  "label_key (Label s) = Inl s"
| "label_key (IntLabel i) = Inr (real_of_int i)"
| "label_key (FloatLabel r) = Inr r"

definition join_labels :: "string \<Rightarrow> label list \<Rightarrow> error + string" where
  "join_labels sep ls =
     (if list_all is_text_label ls then Inr (str_join sep (text_labels ls)) else Inl TypeError)"

definition column_warnings ::
  "(val list \<Rightarrow> bool) \<Rightarrow> (val list \<Rightarrow> bool) \<Rightarrow> dataframe \<Rightarrow> nat \<Rightarrow> string \<Rightarrow> string list" where
  "column_warnings dates_ok numbers_ok df i c =
     (let col_lower = normalize_column c;
          single = (length (filter (\<lambda>l. l = Label c) (df_columns df)) = 1) in
      (if sublist ''date'' col_lower \<and> \<not> (single \<and> dates_ok (column_cells df i))
       then [''Column '' @ quoted c @ '' may contain invalid dates'']
       else [])
      @ (if (sublist ''amount'' col_lower \<or> sublist ''value'' col_lower)
            \<and> \<not> (single \<and> numbers_ok (column_cells df i))
         then [''Column '' @ quoted c @ '' may contain non-numeric values'']
         else []))"

definition no_lower :: "string \<Rightarrow> error" where
  "no_lower type_name =
     AttributeError (quoted type_name @ '' object has no attribute '' @ quoted ''lower'')"

fun check_columns ::
  "(val list \<Rightarrow> bool) \<Rightarrow> (val list \<Rightarrow> bool) \<Rightarrow> dataframe \<Rightarrow> nat list \<Rightarrow> error + string list" where
  "check_columns dates_ok numbers_ok df [] = Inr []"
| "check_columns dates_ok numbers_ok df (i # rest) =
     (case df_columns df ! i of
        Label c \<Rightarrow>
          (case check_columns dates_ok numbers_ok df rest of
             Inl e \<Rightarrow> Inl e
           | Inr ws \<Rightarrow> Inr (column_warnings dates_ok numbers_ok df i c @ ws))
      | IntLabel n \<Rightarrow> Inl (no_lower ''int'')
      | FloatLabel r \<Rightarrow> Inl (no_lower ''float''))"

definition validate_excel_structure ::
  "(val list \<Rightarrow> bool) \<Rightarrow> (val list \<Rightarrow> bool) \<Rightarrow> dataframe \<Rightarrow> string list \<Rightarrow>
   error + string list \<times> string list" where
  "validate_excel_structure dates_ok numbers_ok df required_columns =
     (if df_empty df then Inr ([''Excel file is empty''], [])
      else
        (case normalized_labels (df_columns df) of
           Inl e \<Rightarrow> Inl e
         | Inr labels \<Rightarrow>
        (let missing = missing_columns (map normalize_column required_columns) labels;
             errors = (if missing \<noteq> []
                       then [''Missing required columns: '' @ str_join '', '' missing]
                       else []);
             duplicates = (if \<not> distinct (map label_key (df_columns df))
                           then [''Duplicate column headers detected''] else []);
             indices = [0 ..< length (df_columns df)];
             empty_columns = map (\<lambda>i. df_columns df ! i)
                               (filter (\<lambda>i. list_all (\<lambda>v. v = VNone) (column_cells df i))
                                       indices)
         in case (if empty_columns \<noteq> [] then join_labels '', '' empty_columns else Inr []) of
              Inl e \<Rightarrow> Inl e
            | Inr joined \<Rightarrow>
                (case check_columns dates_ok numbers_ok df indices of
                   Inl e \<Rightarrow> Inl e
                 | Inr ws \<Rightarrow>
                     Inr (errors,
                          duplicates
                          @ (if empty_columns \<noteq> []
                             then [''Empty columns detected: '' @ joined] else [])
                          @ ws)))))"

text \<open>The expected columns that no text label of the frame matches.\<close>

definition absent_columns :: "dataframe \<Rightarrow> string list" where
  "absent_columns df =
     filter (\<lambda>c. c \<notin> normalize_column ` set (text_labels (df_columns df))) expected_columns"

text \<open>The frame of \<open>ExcelHandler.create_emd_template\<close>, the sheet \<open>EMD_Data\<close>.\<close>

definition emd_template :: dataframe where
  "emd_template =
     \<lparr>df_columns =
        [Label ''Tender Number'', Label ''Contractor/Bidder Name'', Label ''EMD Amount'',
         Label ''Deposit Date'', Label ''Tender Date'', Label ''Work Description'',
         Label ''Contact Number'', Label ''Bank Details'', Label ''Status'', Label ''Remarks''],
      df_rows =
        [[VStr ''T001/2024'', VStr ''ABC Construction'', VNum 50000, VStr ''2024-01-15'',
          VStr ''2024-01-10'', VStr ''Road Construction'', VStr ''9876543210'',
          VStr ''SBI Account'', VStr ''Active'', VStr ''Sample data''],
         [VStr ''T002/2024'', VStr ''XYZ Builders'', VNum 75000, VStr ''2024-01-20'',
          VStr ''2024-01-15'', VStr ''Building Construction'', VStr ''9876543211'',
          VStr ''HDFC Account'', VStr ''Active'', VStr ''Sample data'']]\<rparr>"

text \<open>A sheet whose header cells are the years 2023 and 2024, and a sheet without cells.\<close>

definition year_sheet :: dataframe where
  "year_sheet = \<lparr>df_columns = [IntLabel 2023, IntLabel 2024], df_rows = [[VNum 1, VNum 2]]\<rparr>"

definition blank_sheet :: dataframe where
  "blank_sheet = \<lparr>df_columns = [], df_rows = []\<rparr>"

section \<open>Properties of the computation routines\<close>

lemma py_sum_from_nums:
  "py_sum_from acc (map (VNum \<circ> f) xs) = Inr (acc + sum_list (map f xs))"
  by (induction xs arbitrary: acc) (simp_all add: add.assoc)

lemma breakdown_amounts:
  "map (\<lambda>d. dict_get_default d ''amount'' (VNum 0)) (deduction_breakdown base ds)
     = map (VNum \<circ> deduction_amount base) ds"
  by (simp add: deduction_breakdown_def deduction_entry_def dict_get_default_def)

lemma total_of_breakdown:
  "deduction_list b = Some (deduction_breakdown base ds) \<Longrightarrow>
   total_deductions b = Inr (sum_list (map (deduction_amount base) ds))"
  by (simp add: total_deductions_def deductions_or_empty_def py_sum_def
      breakdown_amounts py_sum_from_nums)

lemma total_of_none: "deduction_list b = None \<Longrightarrow> total_deductions b = Inr 0"
  by (simp add: total_deductions_def deductions_or_empty_def py_sum_def)

lemma total_of_empty: "deduction_list b = Some [] \<Longrightarrow> total_deductions b = Inr 0"
  by (simp add: total_deductions_def deductions_or_empty_def py_sum_def)

lemma net_of_total:
  "total_deductions b = Inr t \<Longrightarrow> entries b ''bill_amount'' = Some (VNum base) \<Longrightarrow>
   net_amount b = Inr (base - t)"
  by (simp add: net_amount_def dict_get_default_def)

text \<open>
  Claim C1. For non-negative principal \<open>p\<close> and annual rate \<open>r\<close> and a whole number of
  days \<open>d\<close>: when \<open>d\<close> is not negative the interest is \<open>p * r/100 * d/365\<close> and the refund
  is the principal plus the interest; when \<open>d\<close> is negative the refund is exactly the
  principal. For 50000 at 6 percent over 31 days the interest rounds to 254.79 and
  the refund to 50254.79.
\<close>

theorem deposit_interest_formula:
  "0 \<le> p \<Longrightarrow> 0 \<le> r \<Longrightarrow>
   (0 \<le> d \<longrightarrow> interest p r d = p * r / 100 * real_of_int d / 365
              \<and> refund p r d = p + interest p r d)
   \<and> (d < 0 \<longrightarrow> refund p r d = p)
   \<and> round2 (interest 50000 6 31) = 254.79
   \<and> round2 (refund 50000 6 31) = 50254.79"
  by (simp add: interest_def refund_def days_held_def round2_def round_def)

theorem deposit_interest_formula_witness:
  "(0::real) \<le> 1000 \<and> (0::real) \<le> 5
   \<and> interest 1000 5 73 = 10 \<and> refund 1000 5 73 = 1010 \<and> refund 1000 5 (-4) = 1000"
  using deposit_interest_formula [of 1000 5 73] deposit_interest_formula [of 1000 5 "-4"]
  by simp

text \<open>
  Claim C2. For every base amount and list of deductions: each amount is the fixed
  value if given, else the rate percent of the base; the total the exporters print is
  the sum of the amounts and the net amount is the base minus that sum; without
  deductions the total is 0 and the net amount is the base. The bill of 500000 with a
  fixed 5000 and 5 percent has total 30000 and net 470000.
\<close>

theorem deduction_breakdown_total_and_net:
  "entries b ''bill_amount'' = Some (VNum base) \<Longrightarrow>
   (deduction_list b = Some (deduction_breakdown base ds) \<longrightarrow>
      map (\<lambda>e. dict_get e ''amount'') (deduction_breakdown base ds)
        = map (\<lambda>d. VNum (case fixed d of Some v \<Rightarrow> v | None \<Rightarrow> rate d / 100 * base)) ds
      \<and> total_deductions b = Inr (sum_list (map (deduction_amount base) ds))
      \<and> net_amount b = Inr (base - sum_list (map (deduction_amount base) ds)))
   \<and> (deduction_list b = Some [] \<or> deduction_list b = None \<longrightarrow>
      total_deductions b = Inr 0 \<and> net_amount b = Inr base)
   \<and> total_deductions scenario_bill = Inr 30000
   \<and> net_amount scenario_bill = Inr 470000"
proof (intro conjI impI)
  assume base: "entries b ''bill_amount'' = Some (VNum base)"
  show "map (\<lambda>e. dict_get e ''amount'') (deduction_breakdown base ds)
        = map (\<lambda>d. VNum (case fixed d of Some v \<Rightarrow> v | None \<Rightarrow> rate d / 100 * base)) ds"
    by (simp add: deduction_breakdown_def deduction_entry_def dict_get_def deduction_amount_def)
  {
    assume "deduction_list b = Some (deduction_breakdown base ds)"
    then have t: "total_deductions b = Inr (sum_list (map (deduction_amount base) ds))"
      by (rule total_of_breakdown)
    show "total_deductions b = Inr (sum_list (map (deduction_amount base) ds))" by (rule t)
    show "net_amount b = Inr (base - sum_list (map (deduction_amount base) ds))"
      using t base by (rule net_of_total)
  }
  {
    assume "deduction_list b = Some [] \<or> deduction_list b = None"
    then have t: "total_deductions b = Inr 0"
      using total_of_none total_of_empty by blast
    show "total_deductions b = Inr 0" by (rule t)
    show "net_amount b = Inr base" using net_of_total [OF t base] by simp
  }
  have s: "total_deductions scenario_bill = Inr 30000"
    using total_of_breakdown [of scenario_bill 500000 scenario_deductions]
    by (simp add: scenario_bill_def scenario_deductions_def deduction_amount_def)
  show "total_deductions scenario_bill = Inr 30000" by (rule s)
  show "net_amount scenario_bill = Inr 470000"
    using net_of_total [OF s, of 500000] by (simp add: scenario_bill_def)
qed

theorem deduction_breakdown_total_and_net_witness:
  "total_deductions \<lparr>entries = [''bill_amount'' \<mapsto> VNum 1200], deduction_list = None\<rparr> = Inr 0
   \<and> net_amount \<lparr>entries = [''bill_amount'' \<mapsto> VNum 1200], deduction_list = None\<rparr> = Inr 1200"
  using deduction_breakdown_total_and_net
    [of "\<lparr>entries = [''bill_amount'' \<mapsto> VNum 1200], deduction_list = None\<rparr>" 1200]
  by simp

section \<open>Properties of the ledger store\<close>

subsection \<open>Row ids, inserts and saves\<close>

lemma fold_max_ge_init: "a \<le> fold max xs (a::nat)"
  by (induction xs arbitrary: a) (auto intro: order_trans [OF max.cobounded2])

lemma fold_max_ge_elem: "x \<in> set xs \<Longrightarrow> x \<le> fold max xs (a::nat)"
proof (induction xs arbitrary: a)
  case Nil
  then show ?case by simp
next
  case (Cons y ys)
  show ?case
  proof (cases "x = y")
    case True
    have "y \<le> max y a" by simp
    also have "\<dots> \<le> fold max ys (max y a)" by (rule fold_max_ge_init)
    finally show ?thesis using True by simp
  next
    case False
    with Cons.prems have "x \<in> set ys" by simp
    then show ?thesis using Cons.IH by simp
  qed
qed

lemma next_rowid_fresh: "r \<in> set (rows t) \<Longrightarrow> row_id r < next_rowid t"
  unfolding next_rowid_def using fold_max_ge_elem [of "row_id r" "map row_id (rows t)" "last_rowid t"]
  by (simp add: less_Suc_eq_le)

lemma next_rowid_unused: "next_rowid t \<notin> row_id ` set (rows t)"
proof
  assume "next_rowid t \<in> row_id ` set (rows t)"
  then obtain r where "r \<in> set (rows t)" "row_id r = next_rowid t" by auto
  then show False using next_rowid_fresh [of r t] by simp
qed

lemma affinity_null_iff: "apply_affinity eng a (bind_param v) = VNone \<longleftrightarrow> v = VNone"
  by (cases a; cases v) (simp_all split: option.splits)

lemma stored_verbatim_kept: "stored_verbatim eng a v \<Longrightarrow> apply_affinity eng a (bind_param v) = v"
  by (cases a; cases v) simp_all

lemma insert_row_known:
  "table_columns name = Some cols \<Longrightarrow> get_table name db = Some t \<Longrightarrow>
   insert_row eng name now params db =
     (case violated_not_null cols (new_cells eng cols params) of
        Some c \<Rightarrow> Inl (IntegrityError (''NOT NULL constraint failed: '' @ name @ ''.'' @ c))
      | None \<Rightarrow>
          Inr (next_rowid t,
               put_table name
                 (t\<lparr>rows := rows t @ [\<lparr>row_id = next_rowid t,
                                       cells = new_cells eng cols params,
                                       created_at = now\<rparr>],
                    last_rowid := next_rowid t\<rparr>) db))"
  by (simp add: insert_row_def Let_def split: option.splits)

lemma save_single:
  "with_connection db (\<lambda>conn.
     case execute_insert eng name now params conn of
       (Inl e, c1) \<Rightarrow> (Inl e, c1)
     | (Inr i, c1) \<Rightarrow> (Inr i, commit c1))
   = (case insert_row eng name now params db of
        Inl e \<Rightarrow> (Inl e, db)
      | Inr (i, db') \<Rightarrow> (Inr i, db'))"
  by (simp add: with_connection_def execute_insert_def connect_def commit_def rollback_def
      split: sum.splits prod.splits)

lemma insert_deduction:
  "insert_row eng ''deductions'' now params db =
     Inr (next_rowid (deductions db),
          db\<lparr>deductions := (deductions db)
               \<lparr>rows := rows (deductions db) @
                    [\<lparr>row_id = next_rowid (deductions db),
                      cells = new_cells eng deductions_columns params,
                      created_at = now\<rparr>],
                last_rowid := next_rowid (deductions db)\<rparr>\<rparr>)"
  by (simp add: insert_row_known [of "''deductions''" deductions_columns db "deductions db"]
      table_columns_def get_table_def put_table_def violated_not_null_def
      deductions_columns_def col_def)

lemma insert_bill:
  "insert_row eng ''bills'' now params db =
     (if new_cells eng bills_columns params ''bill_number'' = Some VNone
      then Inl (IntegrityError ''NOT NULL constraint failed: bills.bill_number'')
      else Inr (next_rowid (bills db),
                db\<lparr>bills := (bills db)
                     \<lparr>rows := rows (bills db) @
                          [\<lparr>row_id = next_rowid (bills db),
                            cells = new_cells eng bills_columns params,
                            created_at = now\<rparr>],
                      last_rowid := next_rowid (bills db)\<rparr>\<rparr>))"
  by (simp add: insert_row_known [of "''bills''" bills_columns db "bills db"]
      table_columns_def get_table_def put_table_def violated_not_null_def
      bills_columns_def col_def)

lemma insert_emd_refund:
  "insert_row eng ''emd_refunds'' now params db =
     (if new_cells eng emd_refunds_columns params ''tender_number'' = Some VNone
      then Inl (IntegrityError ''NOT NULL constraint failed: emd_refunds.tender_number'')
      else Inr (next_rowid (emd_refunds db),
                db\<lparr>emd_refunds := (emd_refunds db)
                     \<lparr>rows := rows (emd_refunds db) @
                          [\<lparr>row_id = next_rowid (emd_refunds db),
                            cells = new_cells eng emd_refunds_columns params,
                            created_at = now\<rparr>],
                      last_rowid := next_rowid (emd_refunds db)\<rparr>\<rparr>))"
  by (simp add: insert_row_known [of "''emd_refunds''" emd_refunds_columns db "emd_refunds db"]
      table_columns_def get_table_def put_table_def violated_not_null_def
      emd_refunds_columns_def col_def)

lemma insert_project:
  "insert_row eng ''projects'' now params db =
     (if new_cells eng projects_columns params ''project_name'' = Some VNone
      then Inl (IntegrityError ''NOT NULL constraint failed: projects.project_name'')
      else Inr (next_rowid (projects db),
                db\<lparr>projects := (projects db)
                     \<lparr>rows := rows (projects db) @
                          [\<lparr>row_id = next_rowid (projects db),
                            cells = new_cells eng projects_columns params,
                            created_at = now\<rparr>],
                      last_rowid := next_rowid (projects db)\<rparr>\<rparr>))"
  by (simp add: insert_row_known [of "''projects''" projects_columns db "projects db"]
      table_columns_def get_table_def put_table_def violated_not_null_def
      projects_columns_def col_def)

lemma bill_cells:
  "new_cells eng bills_columns (bill_params b) =
     [''status'' \<mapsto> apply_affinity eng TEXT
         (bind_param (dict_get_default (entries b) ''status'' (VStr ''Active''))),
      ''bill_amount'' \<mapsto> apply_affinity eng REAL (bind_param (dict_get (entries b) ''bill_amount'')),
      ''project_name'' \<mapsto> apply_affinity eng TEXT (bind_param (dict_get (entries b) ''project_name'')),
      ''contractor_name'' \<mapsto> apply_affinity eng TEXT (bind_param (dict_get (entries b) ''contractor_name'')),
      ''bill_date'' \<mapsto> apply_affinity eng NUMERIC (bind_param (dict_get (entries b) ''bill_date'')),
      ''bill_number'' \<mapsto> apply_affinity eng TEXT (bind_param (dict_get (entries b) ''bill_number''))]"
  by (simp add: new_cells_def bills_columns_def bill_params_def col_def)

lemma emd_refund_cells:
  "new_cells eng emd_refunds_columns (emd_refund_params d) =
     [''status'' \<mapsto> apply_affinity eng TEXT
         (bind_param (dict_get_default d ''status'' (VStr ''Processed''))),
      ''refund_amount'' \<mapsto> apply_affinity eng REAL (bind_param (dict_get d ''refund_amount'')),
      ''interest_rate'' \<mapsto> apply_affinity eng REAL (bind_param (dict_get d ''interest_rate'')),
      ''refund_date'' \<mapsto> apply_affinity eng NUMERIC (bind_param (dict_get d ''refund_date'')),
      ''deposit_date'' \<mapsto> apply_affinity eng NUMERIC (bind_param (dict_get d ''deposit_date'')),
      ''emd_amount'' \<mapsto> apply_affinity eng REAL (bind_param (dict_get d ''emd_amount'')),
      ''contractor_name'' \<mapsto> apply_affinity eng TEXT (bind_param (dict_get d ''contractor_name'')),
      ''tender_number'' \<mapsto> apply_affinity eng TEXT (bind_param (dict_get d ''tender_number''))]"
  by (simp add: new_cells_def emd_refunds_columns_def emd_refund_params_def col_def)

lemma project_cells:
  "new_cells eng projects_columns (project_params d) =
     [''status'' \<mapsto> apply_affinity eng TEXT
         (bind_param (dict_get_default d ''status'' (VStr ''Active''))),
      ''completion_date'' \<mapsto> apply_affinity eng NUMERIC (bind_param (dict_get d ''completion_date'')),
      ''start_date'' \<mapsto> apply_affinity eng NUMERIC (bind_param (dict_get d ''start_date'')),
      ''agreement_amount'' \<mapsto> apply_affinity eng REAL (bind_param (dict_get d ''agreement_amount'')),
      ''contractor_name'' \<mapsto> apply_affinity eng TEXT (bind_param (dict_get d ''contractor_name'')),
      ''project_code'' \<mapsto> apply_affinity eng TEXT (bind_param (dict_get d ''project_code'')),
      ''project_name'' \<mapsto> apply_affinity eng TEXT (bind_param (dict_get d ''project_name''))]"
  by (simp add: new_cells_def projects_columns_def project_params_def col_def)

lemma execute_insert_committed:
  "execute_insert eng name now params c = (r, c') \<Longrightarrow> committed c' = committed c"
  by (auto simp: execute_insert_def split: sum.splits prod.splits)

lemma save_deductions_committed:
  "save_deductions eng now i ds c = (r, c') \<Longrightarrow> committed c' = committed c"
proof (induction ds arbitrary: c)
  case Nil
  then show ?case by simp
next
  case (Cons d ds)
  then show ?case
    by (auto split: sum.splits prod.splits dest: execute_insert_committed)
qed

lemma save_deductions_rows:
  "save_deductions eng now i ds c = (Inr u, c') \<Longrightarrow>
     bills (pending c') = bills (pending c)
   \<and> emd_refunds (pending c') = emd_refunds (pending c)
   \<and> projects (pending c') = projects (pending c)
   \<and> (\<exists>news. rows (deductions (pending c')) = rows (deductions (pending c)) @ news
         \<and> length news = length ds
         \<and> (\<forall>r \<in> set news. cells r ''bill_id'' = Some (VNum (real i))))"
proof (induction ds arbitrary: c)
  case Nil
  then show ?case by simp
next
  case (Cons d ds)
  from Cons.prems obtain ty amount c1 j where
    ins: "execute_insert eng ''deductions'' now
             [(''bill_id'', VNum (real i)), (''deduction_type'', ty), (''amount'', amount),
              (''rate'', dict_get_default d ''rate'' (VNum 0)),
              (''is_statutory'', dict_get_default d ''statutory'' (VBool False))] c = (Inr j, c1)"
    and rest: "save_deductions eng now i ds c1 = (Inr u, c')"
    by (auto split: sum.splits prod.splits)
  let ?params = "[(''bill_id'', VNum (real i)), (''deduction_type'', ty), (''amount'', amount),
              (''rate'', dict_get_default d ''rate'' (VNum 0)),
              (''is_statutory'', dict_get_default d ''statutory'' (VBool False))]"
  let ?r = "\<lparr>row_id = next_rowid (deductions (pending c)),
             cells = new_cells eng deductions_columns ?params, created_at = now\<rparr>"
  from ins have p1: "pending c1 = (pending c)\<lparr>deductions := (deductions (pending c))
               \<lparr>rows := rows (deductions (pending c)) @ [?r],
                last_rowid := next_rowid (deductions (pending c))\<rparr>\<rparr>"
    by (auto simp: execute_insert_def insert_deduction)
  have bid: "cells ?r ''bill_id'' = Some (VNum (real i))"
    by (simp add: new_cells_def deductions_columns_def col_def)
  from Cons.IH [OF rest] obtain news where
    others: "bills (pending c') = bills (pending c1)"
      "emd_refunds (pending c') = emd_refunds (pending c1)"
      "projects (pending c') = projects (pending c1)"
    and news: "rows (deductions (pending c')) = rows (deductions (pending c1)) @ news"
      "length news = length ds" "\<forall>r \<in> set news. cells r ''bill_id'' = Some (VNum (real i))"
    by blast
  have "rows (deductions (pending c')) = rows (deductions (pending c)) @ (?r # news)"
    using news(1) p1 by simp
  moreover have "length (?r # news) = length (d # ds)" using news(2) by simp
  moreover have "\<forall>r \<in> set (?r # news). cells r ''bill_id'' = Some (VNum (real i))"
    using news(3) bid by simp
  ultimately have "\<exists>news. rows (deductions (pending c')) = rows (deductions (pending c)) @ news
         \<and> length news = length (d # ds)
         \<and> (\<forall>r \<in> set news. cells r ''bill_id'' = Some (VNum (real i)))"
    by blast
  then show ?case using others p1 by simp
qed

lemma save_bill_unfold:
  "save_bill eng now b db =
     (case execute_insert eng ''bills'' now (bill_params b) (connect db) of
        (Inl e, c1) \<Rightarrow> (Inl e, db)
      | (Inr i, c1) \<Rightarrow>
          (case save_deductions eng now i (deductions_or_empty b) c1 of
             (Inl e, c2) \<Rightarrow> (Inl e, db)
           | (Inr u, c2) \<Rightarrow> (Inr i, pending c2)))"
proof -
  have a: "execute_insert eng ''bills'' now ps (connect db) = (r, c1) \<Longrightarrow> committed c1 = db"
    for ps r c1
    using execute_insert_committed [of eng "''bills''" now ps "connect db" r c1]
    by (simp add: connect_def)
  have b: "execute_insert eng ''bills'' now ps (connect db) = (r, c1) \<Longrightarrow>
           save_deductions eng now i ds c1 = (r', c2) \<Longrightarrow> committed c2 = db"
    for ps r c1 i ds r' c2
    using a [of ps r c1] save_deductions_committed [of eng now i ds c1 r' c2] by simp
  show ?thesis
    unfolding save_bill_def with_connection_def deductions_or_empty_def
    by (auto simp: commit_def rollback_def split: sum.splits prod.splits option.splits
        dest: a b)
qed

lemma save_bill_null_number:
  "dict_get (entries b) ''bill_number'' = VNone \<Longrightarrow>
   save_bill eng now b db =
     (Inl (IntegrityError ''NOT NULL constraint failed: bills.bill_number''), db)"
  by (simp add: save_bill_unfold execute_insert_def insert_bill bill_cells connect_def)

lemma save_bill_success:
  assumes "save_bill eng now b db = (Inr i, db')"
  shows "i = next_rowid (bills db)"
    and "rows (bills db') = rows (bills db) @
           [\<lparr>row_id = i, cells = new_cells eng bills_columns (bill_params b), created_at = now\<rparr>]"
    and "dict_get (entries b) ''bill_number'' \<noteq> VNone"
proof -
  from assms obtain c1 c2 u where
    ins: "execute_insert eng ''bills'' now (bill_params b) (connect db) = (Inr i, c1)"
    and ded: "save_deductions eng now i (deductions_or_empty b) c1 = (Inr u, c2)"
    and db': "db' = pending c2"
    by (auto simp: save_bill_unfold split: sum.splits prod.splits)
  from ins show i: "i = next_rowid (bills db)"
    by (auto simp: execute_insert_def insert_bill connect_def split: if_splits)
  from ins have p1: "pending c1 = db\<lparr>bills := (bills db)\<lparr>rows := rows (bills db) @
           [\<lparr>row_id = i, cells = new_cells eng bills_columns (bill_params b), created_at = now\<rparr>],
                                   last_rowid := next_rowid (bills db)\<rparr>\<rparr>"
    by (auto simp: execute_insert_def insert_bill connect_def split: if_splits)
  from save_deductions_rows [OF ded] have "bills (pending c2) = bills (pending c1)" by blast
  then show "rows (bills db') = rows (bills db) @
           [\<lparr>row_id = i, cells = new_cells eng bills_columns (bill_params b), created_at = now\<rparr>]"
    using p1 db' by simp
  from ins show "dict_get (entries b) ''bill_number'' \<noteq> VNone"
    by (auto simp: execute_insert_def insert_bill connect_def bill_cells affinity_null_iff
        split: if_splits)
qed

lemma save_bill_without_deductions:
  "dict_get (entries b) ''bill_number'' \<noteq> VNone \<Longrightarrow> deductions_or_empty b = [] \<Longrightarrow>
   save_bill eng now b db =
     (Inr (next_rowid (bills db)),
      db\<lparr>bills := (bills db)
           \<lparr>rows := rows (bills db) @
                [\<lparr>row_id = next_rowid (bills db),
                  cells = new_cells eng bills_columns (bill_params b),
                  created_at = now\<rparr>],
            last_rowid := next_rowid (bills db)\<rparr>\<rparr>)"
  by (simp add: save_bill_unfold execute_insert_def insert_bill bill_cells connect_def
      affinity_null_iff)

lemma save_emd_refund_result:
  "save_emd_refund eng now d db =
     (if dict_get d ''tender_number'' = VNone
      then (Inl (IntegrityError ''NOT NULL constraint failed: emd_refunds.tender_number''), db)
      else (Inr (next_rowid (emd_refunds db)),
            db\<lparr>emd_refunds := (emd_refunds db)
                 \<lparr>rows := rows (emd_refunds db) @
                      [\<lparr>row_id = next_rowid (emd_refunds db),
                        cells = new_cells eng emd_refunds_columns (emd_refund_params d),
                        created_at = now\<rparr>],
                  last_rowid := next_rowid (emd_refunds db)\<rparr>\<rparr>))"
  by (simp add: save_emd_refund_def save_single insert_emd_refund emd_refund_cells
      affinity_null_iff)

lemma save_project_result:
  "save_project eng now d db =
     (if dict_get d ''project_name'' = VNone
      then (Inl (IntegrityError ''NOT NULL constraint failed: projects.project_name''), db)
      else (Inr (next_rowid (projects db)),
            db\<lparr>projects := (projects db)
                 \<lparr>rows := rows (projects db) @
                      [\<lparr>row_id = next_rowid (projects db),
                        cells = new_cells eng projects_columns (project_params d),
                        created_at = now\<rparr>],
                  last_rowid := next_rowid (projects db)\<rparr>\<rparr>))"
  by (simp add: save_project_def save_single insert_project project_cells
      affinity_null_iff)

lemmas store_eval =
  save_bill_def save_emd_refund_def save_project_def with_connection_def connect_def
  commit_def rollback_def execute_insert_def execute_delete_def insert_row_def delete_row_def
  new_cells_def violated_not_null_def next_rowid_def table_columns_def get_table_def
  put_table_def bills_columns_def emd_refunds_columns_def projects_columns_def
  deductions_columns_def col_def bill_params_def emd_refund_params_def project_params_def
  dict_get_def dict_get_default_def dict_item_def fresh_database_def empty_table_def
  example_engine_def Let_def

lemmas query_eval =
  search_records_def default_search_columns_def row_matches_def column_value_def
  order_by_created_at_desc_def select_newest_first_def get_bills_def get_emd_refunds_def
  get_projects_def sql_limit_def delete_record_def init_sample_data_def
  lowercase_database_def lowercase_row_def ascii_lower_def

subsection \<open>Saving, then listing\<close>

lemma listed_after_append:
  assumes "rows t' = rows t @ [r]" and "row_id r = next_rowid t"
  shows "r \<in> set (select_newest_first t' None)"
    and "r' \<in> set (select_newest_first t' None) \<Longrightarrow> row_id r' = row_id r \<Longrightarrow> r' = r"
proof -
  have s: "set (select_newest_first t' None) = insert r (set (rows t))"
    using assms(1) by (simp add: select_newest_first_def order_by_created_at_desc_def)
  show "r \<in> set (select_newest_first t' None)" using s by simp
  assume "r' \<in> set (select_newest_first t' None)" and same: "row_id r' = row_id r"
  then have "r' = r \<or> r' \<in> set (rows t)" using s by simp
  then show "r' = r" using next_rowid_fresh [of r' t] same assms(2) by auto
qed

lemma status_kept:
  "stored_verbatim eng TEXT (dict_get d ''status'') \<Longrightarrow>
   apply_affinity eng TEXT (bind_param (dict_get_default d ''status'' (VStr s0)))
     = dict_get_default d ''status'' (VStr s0)"
  by (cases "d ''status''")
     (simp_all add: dict_get_def dict_get_default_def stored_verbatim_kept)

lemma bill_row_shows_record:
  assumes "record_stored_verbatim eng bills_columns (entries b)"
    and "cells r = new_cells eng bills_columns (bill_params b)"
  shows "(\<forall>k \<in> set [''bill_number'', ''bill_date'', ''contractor_name'', ''project_name'',
                      ''bill_amount'']. cells r k = Some (dict_get (entries b) k))
         \<and> cells r ''status'' = Some (dict_get_default (entries b) ''status'' (VStr ''Active''))"
proof -
  from assms(1) have
    "stored_verbatim eng TEXT (dict_get (entries b) ''bill_number'')"
    "stored_verbatim eng NUMERIC (dict_get (entries b) ''bill_date'')"
    "stored_verbatim eng TEXT (dict_get (entries b) ''contractor_name'')"
    "stored_verbatim eng TEXT (dict_get (entries b) ''project_name'')"
    "stored_verbatim eng REAL (dict_get (entries b) ''bill_amount'')"
    "stored_verbatim eng TEXT (dict_get (entries b) ''status'')"
    by (simp_all add: record_stored_verbatim_def bills_columns_def col_def)
  then show ?thesis
    by (simp add: assms(2) bill_cells stored_verbatim_kept status_kept)
qed

lemma emd_refund_row_shows_record:
  assumes "record_stored_verbatim eng emd_refunds_columns d"
    and "cells r = new_cells eng emd_refunds_columns (emd_refund_params d)"
  shows "(\<forall>k \<in> set [''tender_number'', ''contractor_name'', ''emd_amount'', ''deposit_date'',
                      ''refund_date'', ''interest_rate'', ''refund_amount''].
            cells r k = Some (dict_get d k))
         \<and> cells r ''status'' = Some (dict_get_default d ''status'' (VStr ''Processed''))"
proof -
  from assms(1) have
    "stored_verbatim eng TEXT (dict_get d ''tender_number'')"
    "stored_verbatim eng TEXT (dict_get d ''contractor_name'')"
    "stored_verbatim eng REAL (dict_get d ''emd_amount'')"
    "stored_verbatim eng NUMERIC (dict_get d ''deposit_date'')"
    "stored_verbatim eng NUMERIC (dict_get d ''refund_date'')"
    "stored_verbatim eng REAL (dict_get d ''interest_rate'')"
    "stored_verbatim eng REAL (dict_get d ''refund_amount'')"
    "stored_verbatim eng TEXT (dict_get d ''status'')"
    by (simp_all add: record_stored_verbatim_def emd_refunds_columns_def col_def)
  then show ?thesis
    by (simp add: assms(2) emd_refund_cells stored_verbatim_kept status_kept)
qed

lemma project_row_shows_record:
  assumes "record_stored_verbatim eng projects_columns d"
    and "cells r = new_cells eng projects_columns (project_params d)"
  shows "(\<forall>k \<in> set [''project_name'', ''project_code'', ''contractor_name'',
                      ''agreement_amount'', ''start_date'', ''completion_date''].
            cells r k = Some (dict_get d k))
         \<and> cells r ''status'' = Some (dict_get_default d ''status'' (VStr ''Active''))"
proof -
  from assms(1) have
    "stored_verbatim eng TEXT (dict_get d ''project_name'')"
    "stored_verbatim eng TEXT (dict_get d ''project_code'')"
    "stored_verbatim eng TEXT (dict_get d ''contractor_name'')"
    "stored_verbatim eng REAL (dict_get d ''agreement_amount'')"
    "stored_verbatim eng NUMERIC (dict_get d ''start_date'')"
    "stored_verbatim eng NUMERIC (dict_get d ''completion_date'')"
    "stored_verbatim eng TEXT (dict_get d ''status'')"
    by (simp_all add: record_stored_verbatim_def projects_columns_def col_def)
  then show ?thesis
    by (simp add: assms(2) project_cells stored_verbatim_kept status_kept)
qed

lemma bill_row_converted:
  assumes "cells r = new_cells eng bills_columns (bill_params b)"
  shows "\<forall>c \<in> set bills_columns.
           cells r (cname c) = Some (apply_affinity eng (caffinity c)
             (bind_param (saved_value (entries b) ''Active'' (cname c))))"
  unfolding assms bill_cells
  by (simp add: bills_columns_def col_def saved_value_def)

lemma emd_refund_row_converted:
  assumes "cells r = new_cells eng emd_refunds_columns (emd_refund_params d)"
  shows "\<forall>c \<in> set emd_refunds_columns.
           cells r (cname c) = Some (apply_affinity eng (caffinity c)
             (bind_param (saved_value d ''Processed'' (cname c))))"
  unfolding assms emd_refund_cells
  by (simp add: emd_refunds_columns_def col_def saved_value_def)

lemma project_row_converted:
  assumes "cells r = new_cells eng projects_columns (project_params d)"
  shows "\<forall>c \<in> set projects_columns.
           cells r (cname c) = Some (apply_affinity eng (caffinity c)
             (bind_param (saved_value d ''Active'' (cname c))))"
  unfolding assms project_cells
  by (simp add: projects_columns_def col_def saved_value_def)

lemma bill_row_verbatim:
  assumes "record_stored_verbatim eng bills_columns (entries b)"
    and "cells r = new_cells eng bills_columns (bill_params b)"
  shows "\<forall>c \<in> set bills_columns.
           cells r (cname c) = Some (saved_value (entries b) ''Active'' (cname c))"
  using bill_row_shows_record [OF assms]
  by (simp add: bills_columns_def col_def saved_value_def)

lemma emd_refund_row_verbatim:
  assumes "record_stored_verbatim eng emd_refunds_columns d"
    and "cells r = new_cells eng emd_refunds_columns (emd_refund_params d)"
  shows "\<forall>c \<in> set emd_refunds_columns.
           cells r (cname c) = Some (saved_value d ''Processed'' (cname c))"
  using emd_refund_row_shows_record [OF assms]
  by (simp add: emd_refunds_columns_def col_def saved_value_def)

lemma project_row_verbatim:
  assumes "record_stored_verbatim eng projects_columns d"
    and "cells r = new_cells eng projects_columns (project_params d)"
  shows "\<forall>c \<in> set projects_columns.
           cells r (cname c) = Some (saved_value d ''Active'' (cname c))"
  using project_row_shows_record [OF assms]
  by (simp add: projects_columns_def col_def saved_value_def)

text \<open>What a listing shows of a saved record, for any of the three kinds.\<close>

lemma listed_as_converted:
  assumes rs: "rows t' = rows t @ [r]" and id: "row_id r = next_rowid t"
    and conv: "\<forall>c \<in> set cols.
           cells r (cname c) = Some (apply_affinity eng (caffinity c)
             (bind_param (saved_value d default_status (cname c))))"
    and verb: "record_stored_verbatim eng cols d \<Longrightarrow>
           \<forall>c \<in> set cols. cells r (cname c) = Some (saved_value d default_status (cname c))"
  shows "\<exists>r \<in> set (select_newest_first t' None). row_id r = next_rowid t
           \<and> (\<forall>c \<in> set cols.
                 cells r (cname c) = Some (apply_affinity eng (caffinity c)
                   (bind_param (saved_value d default_status (cname c)))))
           \<and> (record_stored_verbatim eng cols d \<longrightarrow>
                 (\<forall>c \<in> set cols. cells r (cname c) = Some (saved_value d default_status (cname c))))
           \<and> (\<forall>r' \<in> set (select_newest_first t' None). row_id r' = next_rowid t \<longrightarrow> r' = r)"
proof (rule bexI [of _ r])
  show "r \<in> set (select_newest_first t' None)" by (rule listed_after_append(1) [OF rs id])
  have "\<forall>r' \<in> set (select_newest_first t' None). row_id r' = next_rowid t \<longrightarrow> r' = r"
    using listed_after_append(2) [OF rs id] id by metis
  with id conv verb show "row_id r = next_rowid t
           \<and> (\<forall>c \<in> set cols.
                 cells r (cname c) = Some (apply_affinity eng (caffinity c)
                   (bind_param (saved_value d default_status (cname c)))))
           \<and> (record_stored_verbatim eng cols d \<longrightarrow>
                 (\<forall>c \<in> set cols. cells r (cname c) = Some (saved_value d default_status (cname c))))
           \<and> (\<forall>r' \<in> set (select_newest_first t' None). row_id r' = next_rowid t \<longrightarrow> r' = r)"
    by blast
qed

lemma bill_listed:
  assumes ok: "save_bill eng now b db = (Inr i, db')"
  shows "\<exists>r \<in> set (get_bills db' None). row_id r = i
           \<and> (\<forall>c \<in> set bills_columns.
                 cells r (cname c) = Some (apply_affinity eng (caffinity c)
                   (bind_param (saved_value (entries b) ''Active'' (cname c)))))
           \<and> (record_stored_verbatim eng bills_columns (entries b) \<longrightarrow>
                 (\<forall>c \<in> set bills_columns.
                    cells r (cname c) = Some (saved_value (entries b) ''Active'' (cname c))))
           \<and> (\<forall>r' \<in> set (get_bills db' None). row_id r' = i \<longrightarrow> r' = r)"
proof -
  let ?r = "\<lparr>row_id = i, cells = new_cells eng bills_columns (bill_params b), created_at = now\<rparr>"
  note s = save_bill_success [OF ok]
  have id: "row_id ?r = next_rowid (bills db)" using s(1) by simp
  have c: "cells ?r = new_cells eng bills_columns (bill_params b)" by simp
  show ?thesis
    unfolding get_bills_def s(1)
    by (rule listed_as_converted [OF s(2) [unfolded s(1)] id [unfolded s(1)]
          bill_row_converted [OF c, unfolded s(1)] bill_row_verbatim [OF _ c, unfolded s(1)]])
qed

lemma emd_refund_listed:
  assumes ok: "save_emd_refund eng now emd db = (Inr i, db')"
  shows "\<exists>r \<in> set (get_emd_refunds db' None). row_id r = i
           \<and> (\<forall>c \<in> set emd_refunds_columns.
                 cells r (cname c) = Some (apply_affinity eng (caffinity c)
                   (bind_param (saved_value emd ''Processed'' (cname c)))))
           \<and> (record_stored_verbatim eng emd_refunds_columns emd \<longrightarrow>
                 (\<forall>c \<in> set emd_refunds_columns.
                    cells r (cname c) = Some (saved_value emd ''Processed'' (cname c))))
           \<and> (\<forall>r' \<in> set (get_emd_refunds db' None). row_id r' = i \<longrightarrow> r' = r)"
proof -
  let ?r = "\<lparr>row_id = i, cells = new_cells eng emd_refunds_columns (emd_refund_params emd), created_at = now\<rparr>"
  from ok have i: "i = next_rowid (emd_refunds db)"
    by (auto simp: save_emd_refund_result split: if_splits)
  from ok have rs: "rows (emd_refunds db') = rows (emd_refunds db) @ [?r]"
    by (auto simp: save_emd_refund_result split: if_splits)
  have id: "row_id ?r = next_rowid (emd_refunds db)" using i by simp
  have c: "cells ?r = new_cells eng emd_refunds_columns (emd_refund_params emd)" by simp
  show ?thesis
    unfolding get_emd_refunds_def i
    by (rule listed_as_converted [OF rs [unfolded i] id [unfolded i]
          emd_refund_row_converted [OF c, unfolded i] emd_refund_row_verbatim [OF _ c, unfolded i]])
qed

lemma project_listed:
  assumes ok: "save_project eng now prj db = (Inr i, db')"
  shows "\<exists>r \<in> set (get_projects db' None). row_id r = i
           \<and> (\<forall>c \<in> set projects_columns.
                 cells r (cname c) = Some (apply_affinity eng (caffinity c)
                   (bind_param (saved_value prj ''Active'' (cname c)))))
           \<and> (record_stored_verbatim eng projects_columns prj \<longrightarrow>
                 (\<forall>c \<in> set projects_columns.
                    cells r (cname c) = Some (saved_value prj ''Active'' (cname c))))
           \<and> (\<forall>r' \<in> set (get_projects db' None). row_id r' = i \<longrightarrow> r' = r)"
proof -
  let ?r = "\<lparr>row_id = i, cells = new_cells eng projects_columns (project_params prj), created_at = now\<rparr>"
  from ok have i: "i = next_rowid (projects db)"
    by (auto simp: save_project_result split: if_splits)
  from ok have rs: "rows (projects db') = rows (projects db) @ [?r]"
    by (auto simp: save_project_result split: if_splits)
  have id: "row_id ?r = next_rowid (projects db)" using i by simp
  have c: "cells ?r = new_cells eng projects_columns (project_params prj)" by simp
  show ?thesis
    unfolding get_projects_def i
    by (rule listed_as_converted [OF rs [unfolded i] id [unfolded i]
          project_row_converted [OF c, unfolded i] project_row_verbatim [OF _ c, unfolded i]])
qed

text \<open>
  Claim C3, as the code has it. A record that \<open>save_bill\<close>, \<open>save_emd_refund\<close> or
  \<open>save_project\<close> has saved (the call returned an id) is listed by \<open>get_bills\<close>,
  \<open>get_emd_refunds\<close> or \<open>get_projects\<close> exactly once under that id. Each field is listed
  as the column's type affinity has converted the saved value (\<open>status\<close> being the
  default of the save when the record has none); it is listed identical to the saved
  value for every record whose values have the storage type of their columns: text or
  nothing in a text column, a number, nothing or a text that is no number (a date) in a
  numeric column.
\<close>

theorem saved_record_is_listed:
  "(save_bill eng now b db = (Inr i, db') \<longrightarrow>
      (\<exists>r \<in> set (get_bills db' None). row_id r = i
         \<and> (\<forall>c \<in> set bills_columns.
               cells r (cname c) = Some (apply_affinity eng (caffinity c)
                 (bind_param (saved_value (entries b) ''Active'' (cname c)))))
         \<and> (record_stored_verbatim eng bills_columns (entries b) \<longrightarrow>
               (\<forall>c \<in> set bills_columns.
                  cells r (cname c) = Some (saved_value (entries b) ''Active'' (cname c))))
         \<and> (\<forall>r' \<in> set (get_bills db' None). row_id r' = i \<longrightarrow> r' = r)))
   \<and> (save_emd_refund eng now emd db = (Inr i, db') \<longrightarrow>
      (\<exists>r \<in> set (get_emd_refunds db' None). row_id r = i
         \<and> (\<forall>c \<in> set emd_refunds_columns.
               cells r (cname c) = Some (apply_affinity eng (caffinity c)
                 (bind_param (saved_value emd ''Processed'' (cname c)))))
         \<and> (record_stored_verbatim eng emd_refunds_columns emd \<longrightarrow>
               (\<forall>c \<in> set emd_refunds_columns.
                  cells r (cname c) = Some (saved_value emd ''Processed'' (cname c))))
         \<and> (\<forall>r' \<in> set (get_emd_refunds db' None). row_id r' = i \<longrightarrow> r' = r)))
   \<and> (save_project eng now prj db = (Inr i, db') \<longrightarrow>
      (\<exists>r \<in> set (get_projects db' None). row_id r = i
         \<and> (\<forall>c \<in> set projects_columns.
               cells r (cname c) = Some (apply_affinity eng (caffinity c)
                 (bind_param (saved_value prj ''Active'' (cname c)))))
         \<and> (record_stored_verbatim eng projects_columns prj \<longrightarrow>
               (\<forall>c \<in> set projects_columns.
                  cells r (cname c) = Some (saved_value prj ''Active'' (cname c))))
         \<and> (\<forall>r' \<in> set (get_projects db' None). row_id r' = i \<longrightarrow> r' = r)))"
  using bill_listed [of eng now b db i db'] emd_refund_listed [of eng now emd db i db']
    project_listed [of eng now prj db i db']
  by (intro conjI impI) assumption+

theorem saved_record_is_listed_witness:
  "fst (save_bill example_engine 100 sample_bill fresh_database) = Inr 1
   \<and> (\<exists>r \<in> set (get_bills (snd (save_bill example_engine 100 sample_bill fresh_database)) None).
         row_id r = 1
       \<and> cells r ''bill_number'' = Some (VStr ''B001/2024'')
       \<and> cells r ''bill_amount'' = Some (VNum 500000))
   \<and> fst (save_emd_refund example_engine 100 sample_emd fresh_database) = Inr 1
   \<and> (\<exists>r \<in> set (get_emd_refunds
                    (snd (save_emd_refund example_engine 100 sample_emd fresh_database)) None).
         row_id r = 1
       \<and> cells r ''tender_number'' = Some (VStr ''T001/2024'')
       \<and> cells r ''refund_amount'' = Some (VNum 50500))
   \<and> fst (save_project example_engine 100 sample_project fresh_database) = Inr 1
   \<and> (\<exists>r \<in> set (get_projects
                    (snd (save_project example_engine 100 sample_project fresh_database)) None).
         row_id r = 1
       \<and> cells r ''project_name'' = Some (VStr ''Bridge Construction'')
       \<and> cells r ''completion_date'' = Some (VStr ''2024-12-31''))"
proof -
  define rb where "rb = save_bill example_engine 100 sample_bill fresh_database"
  define re where "re = save_emd_refund example_engine 100 sample_emd fresh_database"
  define rp where "rp = save_project example_engine 100 sample_project fresh_database"
  have fb: "fst rb = Inr 1" unfolding rb_def by (simp add: store_eval sample_bill_def)
  have fe: "fst re = Inr 1" unfolding re_def by (simp add: store_eval sample_emd_def)
  have fp: "fst rp = Inr 1" unfolding rp_def by (simp add: store_eval sample_project_def)
  have okb: "save_bill example_engine 100 sample_bill fresh_database = (Inr 1, snd rb)"
    using fb unfolding rb_def by (simp add: prod_eq_iff)
  have oke: "save_emd_refund example_engine 100 sample_emd fresh_database = (Inr 1, snd re)"
    using fe unfolding re_def by (simp add: prod_eq_iff)
  have okp: "save_project example_engine 100 sample_project fresh_database = (Inr 1, snd rp)"
    using fp unfolding rp_def by (simp add: prod_eq_iff)
  have tb: "record_stored_verbatim example_engine bills_columns (entries sample_bill)"
    by (simp add: record_stored_verbatim_def bills_columns_def col_def sample_bill_def
        dict_get_def example_engine_def)
  have te: "record_stored_verbatim example_engine emd_refunds_columns sample_emd"
    by (simp add: record_stored_verbatim_def emd_refunds_columns_def col_def sample_emd_def
        dict_get_def example_engine_def)
  have tp: "record_stored_verbatim example_engine projects_columns sample_project"
    by (simp add: record_stored_verbatim_def projects_columns_def col_def sample_project_def
        dict_get_def example_engine_def)
  from saved_record_is_listed [THEN conjunct1, THEN mp, OF okb] tb
  obtain r1 where r1: "r1 \<in> set (get_bills (snd rb) None)" "row_id r1 = 1"
    and c1: "\<forall>c \<in> set bills_columns.
               cells r1 (cname c) = Some (saved_value (entries sample_bill) ''Active'' (cname c))"
    by blast
  from c1 have v1: "cells r1 ''bill_number'' = Some (VStr ''B001/2024'')
       \<and> cells r1 ''bill_amount'' = Some (VNum 500000)"
    by (simp add: bills_columns_def col_def saved_value_def sample_bill_def dict_get_def)
  from saved_record_is_listed [THEN conjunct2, THEN conjunct1, THEN mp, OF oke] te
  obtain r2 where r2: "r2 \<in> set (get_emd_refunds (snd re) None)" "row_id r2 = 1"
    and c2: "\<forall>c \<in> set emd_refunds_columns.
               cells r2 (cname c) = Some (saved_value sample_emd ''Processed'' (cname c))"
    by blast
  from c2 have v2: "cells r2 ''tender_number'' = Some (VStr ''T001/2024'')
       \<and> cells r2 ''refund_amount'' = Some (VNum 50500)"
    by (simp add: emd_refunds_columns_def col_def saved_value_def sample_emd_def dict_get_def)
  from saved_record_is_listed [THEN conjunct2, THEN conjunct2, THEN mp, OF okp] tp
  obtain r3 where r3: "r3 \<in> set (get_projects (snd rp) None)" "row_id r3 = 1"
    and c3: "\<forall>c \<in> set projects_columns.
               cells r3 (cname c) = Some (saved_value sample_project ''Active'' (cname c))"
    by blast
  from c3 have v3: "cells r3 ''project_name'' = Some (VStr ''Bridge Construction'')
       \<and> cells r3 ''completion_date'' = Some (VStr ''2024-12-31'')"
    by (simp add: projects_columns_def col_def saved_value_def sample_project_def dict_get_def)
  have e1: "\<exists>r \<in> set (get_bills (snd rb) None). row_id r = 1
       \<and> cells r ''bill_number'' = Some (VStr ''B001/2024'')
       \<and> cells r ''bill_amount'' = Some (VNum 500000)"
    using r1 v1 by (intro bexI [of _ r1] conjI) simp_all
  have e2: "\<exists>r \<in> set (get_emd_refunds (snd re) None). row_id r = 1
       \<and> cells r ''tender_number'' = Some (VStr ''T001/2024'')
       \<and> cells r ''refund_amount'' = Some (VNum 50500)"
    using r2 v2 by (intro bexI [of _ r2] conjI) simp_all
  have e3: "\<exists>r \<in> set (get_projects (snd rp) None). row_id r = 1
       \<and> cells r ''project_name'' = Some (VStr ''Bridge Construction'')
       \<and> cells r ''completion_date'' = Some (VStr ''2024-12-31'')"
    using r3 v3 by (intro bexI [of _ r3] conjI) simp_all
  from fb e1 fe e2 fp e3 show ?thesis unfolding rb_def re_def rp_def by (intro conjI)
qed

theorem saved_number_listed_as_text_counterexample:
  "fst (save_bill example_engine 100 numbered_bill fresh_database) = Inr 1
   \<and> dict_get (entries numbered_bill) ''bill_number'' = VNum 7
   \<and> map (\<lambda>r. (row_id r, cells r ''bill_number''))
        (get_bills (snd (save_bill example_engine 100 numbered_bill fresh_database)) None)
       = [(1, Some (VStr ''7''))]"
  by (simp add: store_eval query_eval numbered_bill_def decimal.simps)

subsection \<open>Searching\<close>

lemma like_percent_any: "like_match ''%'' s"
  by (induction s) simp_all

lemma like_percent_suffix:
  "like_match (CHR ''%'' # q) s \<longleftrightarrow> (\<exists>s'. suffix s' s \<and> like_match q s')"
proof (induction s)
  case Nil
  show ?case by simp
next
  case (Cons c cs)
  show ?case using Cons.IH by (auto simp: suffix_Cons)
qed

lemma like_literal_prefix:
  "CHR ''%'' \<notin> set t \<Longrightarrow> CHR ''_'' \<notin> set t \<Longrightarrow>
   like_match (t @ ''%'') s \<longleftrightarrow> prefix (map ascii_lower t) (map ascii_lower s)"
proof (induction t arbitrary: s)
  case Nil
  show ?case by (simp add: like_percent_any)
next
  case (Cons p t)
  show ?case
  proof (cases s)
    case Nil
    with Cons.prems show ?thesis by auto
  next
    case (Cons c cs)
    with Cons.prems Cons.IH [of cs] show ?thesis by auto
  qed
qed

lemma like_contains:
  assumes "CHR ''%'' \<notin> set t" and "CHR ''_'' \<notin> set t"
  shows "like_match (''%'' @ t @ ''%'') s \<longleftrightarrow> sublist (map ascii_lower t) (map ascii_lower s)"
proof
  assume "like_match (''%'' @ t @ ''%'') s"
  then obtain s' where "suffix s' s" "like_match (t @ ''%'') s'"
    by (auto simp: like_percent_suffix)
  then have "suffix (map ascii_lower s') (map ascii_lower s)"
    and "prefix (map ascii_lower t) (map ascii_lower s')"
    using like_literal_prefix [OF assms, of s'] by (simp_all add: map_mono_suffix)
  then show "sublist (map ascii_lower t) (map ascii_lower s)"
    unfolding sublist_altdef' by blast
next
  assume "sublist (map ascii_lower t) (map ascii_lower s)"
  then obtain ys where "suffix ys (map ascii_lower s)" "prefix (map ascii_lower t) ys"
    unfolding sublist_altdef' by blast
  moreover from this(1) obtain s' where "suffix s' s" "ys = map ascii_lower s'"
    using suffix_map_rightE by blast
  ultimately have "suffix s' s" "like_match (t @ ''%'') s'"
    using like_literal_prefix [OF assms, of s'] by simp_all
  then show "like_match (''%'' @ t @ ''%'') s"
    by (auto simp: like_percent_suffix)
qed

lemma bills_row_matches:
  "row_matches eng [''bill_number'', ''contractor_name'', ''project_name''] search_term r \<longleftrightarrow>
     (\<exists>c \<in> set [''bill_number'', ''contractor_name'', ''project_name''].
        \<exists>v. cells r c = Some v \<and> sql_like eng (''%'' @ search_term @ ''%'') v)"
  by (auto simp: row_matches_def column_value_def split: option.splits)

text \<open>
  Claim C4, as the code has it. A search over \<open>bills\<close> returns, newest first, exactly
  the rows in which \<open>bill_number\<close>, \<open>contractor_name\<close> or \<open>project_name\<close> matches
  \<open>LIKE '%term%'\<close>. For a term without \<open>%\<close> and \<open>_\<close> a text matches exactly when it
  contains the term as a substring without regard to the case of ASCII letters.
\<close>

theorem search_bills_like:
  "search_records eng db ''bills'' search_term None =
     Inr (order_by_created_at_desc
            (filter (\<lambda>r. \<exists>c \<in> set [''bill_number'', ''contractor_name'', ''project_name''].
                            \<exists>v. cells r c = Some v
                               \<and> sql_like eng (''%'' @ search_term @ ''%'') v)
                    (rows (bills db))))
   \<and> (CHR ''%'' \<notin> set search_term \<and> CHR ''_'' \<notin> set search_term \<longrightarrow>
        sql_like eng (''%'' @ search_term @ ''%'') (VStr s)
          = sublist (map ascii_lower search_term) (map ascii_lower s))"
proof (intro conjI impI)
  have "search_records eng db ''bills'' search_term None =
     Inr (order_by_created_at_desc
            (filter (row_matches eng [''bill_number'', ''contractor_name'', ''project_name'']
                       search_term) (rows (bills db))))"
    by (simp add: search_records_def default_search_columns_def table_columns_def
        get_table_def bills_columns_def col_def)
  then show "search_records eng db ''bills'' search_term None =
     Inr (order_by_created_at_desc
            (filter (\<lambda>r. \<exists>c \<in> set [''bill_number'', ''contractor_name'', ''project_name''].
                            \<exists>v. cells r c = Some v
                               \<and> sql_like eng (''%'' @ search_term @ ''%'') v)
                    (rows (bills db))))"
    unfolding bills_row_matches .
next
  assume "CHR ''%'' \<notin> set search_term \<and> CHR ''_'' \<notin> set search_term"
  then show "sql_like eng (''%'' @ search_term @ ''%'') (VStr s)
          = sublist (map ascii_lower search_term) (map ascii_lower s)"
    using like_contains [of search_term s] by simp
qed

theorem search_bills_like_witness:
  "CHR ''%'' \<notin> set ''ABC'' \<and> CHR ''_'' \<notin> set ''ABC''
   \<and> sql_like example_engine (''%'' @ ''ABC'' @ ''%'') (VStr ''abc construction'')
   \<and> \<not> sql_like example_engine (''%'' @ ''ABC'' @ ''%'') (VStr ''Road Repair'')"
  using search_bills_like [of example_engine fresh_database "''ABC''" "''abc construction''"]
    search_bills_like [of example_engine fresh_database "''ABC''" "''Road Repair''"]
  by (simp add: ascii_lower_def sublist_Cons_right)

theorem search_case_sensitive_counterexample:
  "search_records example_engine lowercase_database ''bills'' ''ABC'' None = Inr [lowercase_row]
   \<and> cells lowercase_row ''bill_number'' = Some (VStr ''B002/2024'')
   \<and> cells lowercase_row ''contractor_name'' = Some (VStr ''abc construction'')
   \<and> cells lowercase_row ''project_name'' = Some (VStr ''Road Repair'')
   \<and> \<not> sublist ''ABC'' ''B002/2024''
   \<and> \<not> sublist ''ABC'' ''abc construction''
   \<and> \<not> sublist ''ABC'' ''Road Repair''"
  by (simp add: store_eval query_eval sublist_Cons_right)

subsection \<open>Records without their identifying field\<close>

lemma only_bill_number_cells:
  "new_cells eng bills_columns
     (bill_params \<lparr>entries = [''bill_number'' \<mapsto> v], deduction_list = None\<rparr>) =
     [''status'' \<mapsto> VStr ''Active'', ''bill_amount'' \<mapsto> VNone, ''project_name'' \<mapsto> VNone,
      ''contractor_name'' \<mapsto> VNone, ''bill_date'' \<mapsto> VNone,
      ''bill_number'' \<mapsto> apply_affinity eng TEXT (bind_param v)]"
  by (simp add: bill_cells dict_get_def dict_get_default_def)

lemma only_tender_number_cells:
  "new_cells eng emd_refunds_columns (emd_refund_params [''tender_number'' \<mapsto> v]) =
     [''status'' \<mapsto> VStr ''Processed'', ''refund_amount'' \<mapsto> VNone,
      ''interest_rate'' \<mapsto> VNone, ''refund_date'' \<mapsto> VNone, ''deposit_date'' \<mapsto> VNone,
      ''emd_amount'' \<mapsto> VNone, ''contractor_name'' \<mapsto> VNone,
      ''tender_number'' \<mapsto> apply_affinity eng TEXT (bind_param v)]"
  by (simp add: emd_refund_cells dict_get_def dict_get_default_def)

lemma only_project_name_cells:
  "new_cells eng projects_columns (project_params [''project_name'' \<mapsto> v]) =
     [''status'' \<mapsto> VStr ''Active'', ''completion_date'' \<mapsto> VNone, ''start_date'' \<mapsto> VNone,
      ''agreement_amount'' \<mapsto> VNone, ''contractor_name'' \<mapsto> VNone,
      ''project_code'' \<mapsto> VNone,
      ''project_name'' \<mapsto> apply_affinity eng TEXT (bind_param v)]"
  by (simp add: project_cells dict_get_def dict_get_default_def)

text \<open>
  Claim C5, as the code has it. No layer validates a record before the insert, but the
  schema declares the identifying field \<open>NOT NULL\<close>: a save whose record lacks
  \<open>bill_number\<close> (\<open>tender_number\<close>, \<open>project_name\<close>) raises \<open>IntegrityError\<close> and stores
  nothing; a record that supplies only that field is inserted with NULL in every
  other field, the default status, and an id no row of the table has.
\<close>

theorem save_needs_identifying_field:
  "(dict_get (entries b) ''bill_number'' = VNone \<longrightarrow>
      save_bill eng now b db =
        (Inl (IntegrityError ''NOT NULL constraint failed: bills.bill_number''), db))
   \<and> (dict_get emd ''tender_number'' = VNone \<longrightarrow>
      save_emd_refund eng now emd db =
        (Inl (IntegrityError ''NOT NULL constraint failed: emd_refunds.tender_number''), db))
   \<and> (dict_get prj ''project_name'' = VNone \<longrightarrow>
      save_project eng now prj db =
        (Inl (IntegrityError ''NOT NULL constraint failed: projects.project_name''), db))
   \<and> (v \<noteq> VNone \<longrightarrow>
        save_bill eng now \<lparr>entries = [''bill_number'' \<mapsto> v], deduction_list = None\<rparr> db =
          (Inr (next_rowid (bills db)),
           db\<lparr>bills := (bills db)
             \<lparr>rows := rows (bills db) @
                [\<lparr>row_id = next_rowid (bills db),
                  cells = [''status'' \<mapsto> VStr ''Active'', ''bill_amount'' \<mapsto> VNone,
                           ''project_name'' \<mapsto> VNone, ''contractor_name'' \<mapsto> VNone,
                           ''bill_date'' \<mapsto> VNone,
                           ''bill_number'' \<mapsto> apply_affinity eng TEXT (bind_param v)],
                  created_at = now\<rparr>],
              last_rowid := next_rowid (bills db)\<rparr>\<rparr>)
      \<and> next_rowid (bills db) \<notin> row_id ` set (rows (bills db))
      \<and> save_emd_refund eng now [''tender_number'' \<mapsto> v] db =
          (Inr (next_rowid (emd_refunds db)),
           db\<lparr>emd_refunds := (emd_refunds db)
             \<lparr>rows := rows (emd_refunds db) @
                [\<lparr>row_id = next_rowid (emd_refunds db),
                  cells = [''status'' \<mapsto> VStr ''Processed'', ''refund_amount'' \<mapsto> VNone,
                           ''interest_rate'' \<mapsto> VNone, ''refund_date'' \<mapsto> VNone,
                           ''deposit_date'' \<mapsto> VNone, ''emd_amount'' \<mapsto> VNone,
                           ''contractor_name'' \<mapsto> VNone,
                           ''tender_number'' \<mapsto> apply_affinity eng TEXT (bind_param v)],
                  created_at = now\<rparr>],
              last_rowid := next_rowid (emd_refunds db)\<rparr>\<rparr>)
      \<and> next_rowid (emd_refunds db) \<notin> row_id ` set (rows (emd_refunds db))
      \<and> save_project eng now [''project_name'' \<mapsto> v] db =
          (Inr (next_rowid (projects db)),
           db\<lparr>projects := (projects db)
             \<lparr>rows := rows (projects db) @
                [\<lparr>row_id = next_rowid (projects db),
                  cells = [''status'' \<mapsto> VStr ''Active'', ''completion_date'' \<mapsto> VNone,
                           ''start_date'' \<mapsto> VNone, ''agreement_amount'' \<mapsto> VNone,
                           ''contractor_name'' \<mapsto> VNone, ''project_code'' \<mapsto> VNone,
                           ''project_name'' \<mapsto> apply_affinity eng TEXT (bind_param v)],
                  created_at = now\<rparr>],
              last_rowid := next_rowid (projects db)\<rparr>\<rparr>)
      \<and> next_rowid (projects db) \<notin> row_id ` set (rows (projects db)))"
proof (intro conjI impI)
  assume "dict_get (entries b) ''bill_number'' = VNone"
  then show "save_bill eng now b db =
        (Inl (IntegrityError ''NOT NULL constraint failed: bills.bill_number''), db)"
    by (rule save_bill_null_number)
next
  assume "dict_get emd ''tender_number'' = VNone"
  then show "save_emd_refund eng now emd db =
        (Inl (IntegrityError ''NOT NULL constraint failed: emd_refunds.tender_number''), db)"
    by (simp add: save_emd_refund_result)
next
  assume "dict_get prj ''project_name'' = VNone"
  then show "save_project eng now prj db =
        (Inl (IntegrityError ''NOT NULL constraint failed: projects.project_name''), db)"
    by (simp add: save_project_result)
next
  assume v: "v \<noteq> VNone"
  let ?b = "\<lparr>entries = [''bill_number'' \<mapsto> v], deduction_list = None\<rparr>"
  have "dict_get (entries ?b) ''bill_number'' \<noteq> VNone" "deductions_or_empty ?b = []"
    using v by (simp_all add: dict_get_def deductions_or_empty_def)
  from save_bill_without_deductions [OF this]
  show "save_bill eng now ?b db =
          (Inr (next_rowid (bills db)),
           db\<lparr>bills := (bills db)
             \<lparr>rows := rows (bills db) @
                [\<lparr>row_id = next_rowid (bills db),
                  cells = [''status'' \<mapsto> VStr ''Active'', ''bill_amount'' \<mapsto> VNone,
                           ''project_name'' \<mapsto> VNone, ''contractor_name'' \<mapsto> VNone,
                           ''bill_date'' \<mapsto> VNone,
                           ''bill_number'' \<mapsto> apply_affinity eng TEXT (bind_param v)],
                  created_at = now\<rparr>],
              last_rowid := next_rowid (bills db)\<rparr>\<rparr>)"
    unfolding only_bill_number_cells .
  have "dict_get [''tender_number'' \<mapsto> v] ''tender_number'' \<noteq> VNone"
    using v by (simp add: dict_get_def)
  then show "save_emd_refund eng now [''tender_number'' \<mapsto> v] db =
          (Inr (next_rowid (emd_refunds db)),
           db\<lparr>emd_refunds := (emd_refunds db)
             \<lparr>rows := rows (emd_refunds db) @
                [\<lparr>row_id = next_rowid (emd_refunds db),
                  cells = [''status'' \<mapsto> VStr ''Processed'', ''refund_amount'' \<mapsto> VNone,
                           ''interest_rate'' \<mapsto> VNone, ''refund_date'' \<mapsto> VNone,
                           ''deposit_date'' \<mapsto> VNone, ''emd_amount'' \<mapsto> VNone,
                           ''contractor_name'' \<mapsto> VNone,
                           ''tender_number'' \<mapsto> apply_affinity eng TEXT (bind_param v)],
                  created_at = now\<rparr>],
              last_rowid := next_rowid (emd_refunds db)\<rparr>\<rparr>)"
    unfolding save_emd_refund_result only_tender_number_cells by simp
  have "dict_get [''project_name'' \<mapsto> v] ''project_name'' \<noteq> VNone"
    using v by (simp add: dict_get_def)
  then show "save_project eng now [''project_name'' \<mapsto> v] db =
          (Inr (next_rowid (projects db)),
           db\<lparr>projects := (projects db)
             \<lparr>rows := rows (projects db) @
                [\<lparr>row_id = next_rowid (projects db),
                  cells = [''status'' \<mapsto> VStr ''Active'', ''completion_date'' \<mapsto> VNone,
                           ''start_date'' \<mapsto> VNone, ''agreement_amount'' \<mapsto> VNone,
                           ''contractor_name'' \<mapsto> VNone, ''project_code'' \<mapsto> VNone,
                           ''project_name'' \<mapsto> apply_affinity eng TEXT (bind_param v)],
                  created_at = now\<rparr>],
              last_rowid := next_rowid (projects db)\<rparr>\<rparr>)"
    unfolding save_project_result only_project_name_cells by simp
qed (rule next_rowid_unused)+

theorem save_needs_identifying_field_witness:
  "save_project example_engine 7 Map.empty fresh_database
     = (Inl (IntegrityError ''NOT NULL constraint failed: projects.project_name''),
        fresh_database)
   \<and> fst (save_emd_refund example_engine 7 [''tender_number'' \<mapsto> VStr ''T9''] fresh_database)
     = Inr 1"
proof -
  have "dict_get Map.empty ''project_name'' = VNone" by (simp add: dict_get_def)
  from save_needs_identifying_field [THEN conjunct2, THEN conjunct2, THEN conjunct1, THEN mp, OF this]
  have a: "save_project example_engine 7 Map.empty fresh_database
     = (Inl (IntegrityError ''NOT NULL constraint failed: projects.project_name''),
        fresh_database)" .
  have "VStr ''T9'' \<noteq> VNone" by simp
  from save_needs_identifying_field [THEN conjunct2, THEN conjunct2, THEN conjunct2, THEN mp, OF this]
  have "fst (save_emd_refund example_engine 7 [''tender_number'' \<mapsto> VStr ''T9''] fresh_database)
          = Inr (next_rowid (emd_refunds fresh_database))"
    by simp
  then have b: "fst (save_emd_refund example_engine 7 [''tender_number'' \<mapsto> VStr ''T9''] fresh_database)
          = Inr 1"
    by (simp add: next_rowid_def fresh_database_def empty_table_def)
  from a b show ?thesis by (rule conjI)
qed

theorem save_bill_empty_record_counterexample:
  "save_bill example_engine 0 \<lparr>entries = Map.empty, deduction_list = None\<rparr> fresh_database
     = (Inl (IntegrityError ''NOT NULL constraint failed: bills.bill_number''), fresh_database)"
  by (simp add: store_eval)

subsection \<open>Deleting a bill\<close>

lemma filter_shorter_iff: "length (filter P xs) < length xs \<longleftrightarrow> (\<exists>x \<in> set xs. \<not> P x)"
proof
  assume "length (filter P xs) < length xs"
  then have "filter P xs \<noteq> xs" by auto
  then show "\<exists>x \<in> set xs. \<not> P x" by (auto simp: filter_id_conv)
next
  assume "\<exists>x \<in> set xs. \<not> P x"
  then show "length (filter P xs) < length xs" by (auto intro: length_filter_less)
qed

text \<open>
  Claim C6. Deleting a bill by id removes the rows of \<open>bills\<close> with that id and nothing
  else: the table \<open>deductions\<close>, with the rows whose \<open>bill_id\<close> is the deleted id, is
  unchanged, and so are \<open>emd_refunds\<close> and \<open>projects\<close>. The result tells whether a row
  was deleted.
\<close>

theorem delete_bill_keeps_deductions:
  "delete_record db ''bills'' i =
     (Inr (i \<in> row_id ` set (rows (bills db))),
      db\<lparr>bills := (bills db)\<lparr>rows := filter (\<lambda>r. row_id r \<noteq> i) (rows (bills db))\<rparr>\<rparr>)
   \<and> deductions (snd (delete_record db ''bills'' i)) = deductions db
   \<and> filter (\<lambda>r. cells r ''bill_id'' = Some (VNum (real i)))
        (rows (deductions (snd (delete_record db ''bills'' i))))
      = filter (\<lambda>r. cells r ''bill_id'' = Some (VNum (real i))) (rows (deductions db))
   \<and> emd_refunds (snd (delete_record db ''bills'' i)) = emd_refunds db
   \<and> projects (snd (delete_record db ''bills'' i)) = projects db"
proof -
  have "(0 < length (rows (bills db)) - length (filter (\<lambda>r. row_id r \<noteq> i) (rows (bills db))))
          = (i \<in> row_id ` set (rows (bills db)))"
    using filter_shorter_iff [of "\<lambda>r. row_id r \<noteq> i" "rows (bills db)"] by auto
  then have "delete_record db ''bills'' i =
     (Inr (i \<in> row_id ` set (rows (bills db))),
      db\<lparr>bills := (bills db)\<lparr>rows := filter (\<lambda>r. row_id r \<noteq> i) (rows (bills db))\<rparr>\<rparr>)"
    by (simp add: delete_record_def with_connection_def execute_delete_def delete_row_def
        get_table_def put_table_def connect_def commit_def Let_def)
  then show ?thesis by simp
qed

theorem delete_bill_keeps_deductions_witness:
  "fst (delete_record (snd (init_sample_data example_engine 100 fresh_database)) ''bills'' 1)
     = Inr True
   \<and> map row_id (rows (deductions
        (snd (delete_record (snd (init_sample_data example_engine 100 fresh_database))
               ''bills'' 1)))) = [1, 2]
   \<and> rows (bills
        (snd (delete_record (snd (init_sample_data example_engine 100 fresh_database))
               ''bills'' 1))) = []"
proof -
  let ?db = "snd (init_sample_data example_engine 100 fresh_database)"
  have b: "map row_id (rows (bills ?db)) = [1]"
    by (simp add: store_eval query_eval sample_bill_def sample_emd_def sample_project_def)
  have d: "map row_id (rows (deductions ?db)) = [1, 2]"
    by (simp add: store_eval query_eval sample_bill_def sample_emd_def sample_project_def)
  note t = delete_bill_keeps_deductions [of ?db 1]
  from t have "fst (delete_record ?db ''bills'' 1) = Inr (1 \<in> set (map row_id (rows (bills ?db))))"
    by simp
  then have 1: "fst (delete_record ?db ''bills'' 1) = Inr True" unfolding b by simp
  from t d have 2: "map row_id (rows (deductions (snd (delete_record ?db ''bills'' 1)))) = [1, 2]"
    by simp
  from t have "map row_id (rows (bills (snd (delete_record ?db ''bills'' 1))))
                 = filter (\<lambda>i. i \<noteq> 1) (map row_id (rows (bills ?db)))"
    by (simp add: filter_map comp_def)
  then have 3: "rows (bills (snd (delete_record ?db ''bills'' 1))) = []"
    unfolding b by simp
  from 1 2 3 show ?thesis by simp
qed

subsection \<open>Listing newest first\<close>

lemma newest_first_sorted:
  "sorted_wrt (\<lambda>a b. created_at b \<le> created_at a) (order_by_created_at_desc rs)"
proof -
  have "sorted (map (\<lambda>r. - int (created_at r)) (sort_key (\<lambda>r. - int (created_at r)) rs))"
    by (rule sorted_sort_key)
  then show ?thesis
    by (simp add: sorted_map order_by_created_at_desc_def)
qed

lemma select_newest_first_props:
  "sorted_wrt (\<lambda>a b. created_at b \<le> created_at a) (select_newest_first t None)
   \<and> mset (select_newest_first t None) = mset (rows t)
   \<and> (0 < n \<longrightarrow> select_newest_first t (Some n) = take (nat n) (select_newest_first t None))
   \<and> (n \<le> 0 \<longrightarrow> select_newest_first t (Some n) = select_newest_first t None)"
proof (intro conjI impI)
  show "sorted_wrt (\<lambda>a b. created_at b \<le> created_at a) (select_newest_first t None)"
    by (simp add: select_newest_first_def newest_first_sorted)
  show "mset (select_newest_first t None) = mset (rows t)"
    by (simp add: select_newest_first_def order_by_created_at_desc_def)
  show "select_newest_first t (Some n) = take (nat n) (select_newest_first t None)" if "0 < n"
    using that by (simp add: select_newest_first_def sql_limit_def Let_def)
  show "select_newest_first t (Some n) = select_newest_first t None" if "n \<le> 0"
    using that by (simp add: select_newest_first_def sql_limit_def Let_def)
qed

text \<open>
  Claim C9, as the code has it. Each of \<open>get_bills\<close>, \<open>get_emd_refunds\<close> and
  \<open>get_projects\<close> returns the rows of its table ordered by \<open>created_at\<close>, newest first;
  with a positive limit \<open>n\<close> it returns the first \<open>n\<close> rows of that ordering; a limit
  of \<open>0\<close> (as no limit, by \<open>if limit:\<close>) and a negative limit (no bound for SQLite)
  return all rows.
\<close>

theorem listing_newest_first:
  "sorted_wrt (\<lambda>a b. created_at b \<le> created_at a) (get_bills db None)
   \<and> mset (get_bills db None) = mset (rows (bills db))
   \<and> (0 < n \<longrightarrow> get_bills db (Some n) = take (nat n) (get_bills db None))
   \<and> (n \<le> 0 \<longrightarrow> get_bills db (Some n) = get_bills db None)
   \<and> sorted_wrt (\<lambda>a b. created_at b \<le> created_at a) (get_emd_refunds db None)
   \<and> mset (get_emd_refunds db None) = mset (rows (emd_refunds db))
   \<and> (0 < n \<longrightarrow> get_emd_refunds db (Some n) = take (nat n) (get_emd_refunds db None))
   \<and> (n \<le> 0 \<longrightarrow> get_emd_refunds db (Some n) = get_emd_refunds db None)
   \<and> sorted_wrt (\<lambda>a b. created_at b \<le> created_at a) (get_projects db None)
   \<and> mset (get_projects db None) = mset (rows (projects db))
   \<and> (0 < n \<longrightarrow> get_projects db (Some n) = take (nat n) (get_projects db None))
   \<and> (n \<le> 0 \<longrightarrow> get_projects db (Some n) = get_projects db None)"
  unfolding get_bills_def get_emd_refunds_def get_projects_def
  using select_newest_first_props [of "bills db" n]
    select_newest_first_props [of "emd_refunds db" n]
    select_newest_first_props [of "projects db" n]
  by blast

theorem listing_newest_first_witness:
  "(0::int) < 1
   \<and> map row_id (get_bills (snd (save_bill example_engine 200 sample_bill lowercase_database)) None)
       = [2, 1]
   \<and> map row_id (get_bills (snd (save_bill example_engine 200 sample_bill lowercase_database))
        (Some 1)) = [2]"
proof -
  let ?db = "snd (save_bill example_engine 200 sample_bill lowercase_database)"
  have a: "map row_id (get_bills ?db None) = [2, 1]"
    by (simp add: store_eval query_eval sample_bill_def)
  have "get_bills ?db (Some 1) = take (nat 1) (get_bills ?db None)"
    using listing_newest_first [of ?db 1] by simp
  then have "map row_id (get_bills ?db (Some 1)) = take 1 (map row_id (get_bills ?db None))"
    by (simp add: take_map)
  with a show ?thesis by simp
qed

theorem listing_limit_zero_counterexample:
  "get_bills lowercase_database (Some 0) = [lowercase_row]
   \<and> \<not> length (get_bills lowercase_database (Some 0)) \<le> 0"
  by (simp add: store_eval query_eval)

subsection \<open>The transaction of save_bill\<close>

text \<open>
  Claim C10. \<open>save_bill\<close> writes the bill and its deductions in one transaction: when
  it raises (the \<open>NOT NULL\<close> constraint on the bill, a deduction without \<open>'type'\<close> or
  \<open>'amount'\<close>), the file is left exactly as it was; when it returns an id, the bill row
  with that id and one deduction row per deduction, each carrying that id as
  \<open>bill_id\<close>, have been appended.
\<close>

theorem save_bill_atomic:
  "(fst (save_bill eng now b db) = Inl e \<longrightarrow> snd (save_bill eng now b db) = db)
   \<and> (save_bill eng now b db = (Inr i, db') \<longrightarrow>
        (\<exists>r. rows (bills db') = rows (bills db) @ [r] \<and> row_id r = i)
      \<and> (\<exists>news. rows (deductions db') = rows (deductions db) @ news
            \<and> length news = length (deductions_or_empty b)
            \<and> (\<forall>r \<in> set news. cells r ''bill_id'' = Some (VNum (real i)))))"
proof (intro conjI impI)
  assume "fst (save_bill eng now b db) = Inl e"
  then show "snd (save_bill eng now b db) = db"
    by (auto simp: save_bill_unfold split: sum.splits prod.splits)
next
  assume ok: "save_bill eng now b db = (Inr i, db')"
  let ?ps = "bill_params b"
  from ok obtain c1 c2 u where
    ins: "execute_insert eng ''bills'' now ?ps (connect db) = (Inr i, c1)"
    and ded: "save_deductions eng now i (deductions_or_empty b) c1 = (Inr u, c2)"
    and db': "db' = pending c2"
    by (auto simp: save_bill_unfold split: sum.splits prod.splits)
  let ?r = "\<lparr>row_id = next_rowid (bills db), cells = new_cells eng bills_columns ?ps,
             created_at = now\<rparr>"
  from ins have i: "i = next_rowid (bills db)"
    and p1: "pending c1 = db\<lparr>bills := (bills db)\<lparr>rows := rows (bills db) @ [?r],
                                   last_rowid := next_rowid (bills db)\<rparr>\<rparr>"
    by (auto simp: execute_insert_def insert_bill connect_def split: if_splits)
  from save_deductions_rows [OF ded] obtain news where
    same: "bills (pending c2) = bills (pending c1)"
    and news: "rows (deductions (pending c2)) = rows (deductions (pending c1)) @ news"
      "length news = length (deductions_or_empty b)"
      "\<forall>r \<in> set news. cells r ''bill_id'' = Some (VNum (real i))"
    by blast
  have "rows (bills db') = rows (bills db) @ [?r] \<and> row_id ?r = i"
    using same p1 db' i by simp
  then show "\<exists>r. rows (bills db') = rows (bills db) @ [r] \<and> row_id r = i" by blast
  have "rows (deductions db') = rows (deductions db) @ news"
    using news(1) p1 db' by simp
  then show "\<exists>news. rows (deductions db') = rows (deductions db) @ news
            \<and> length news = length (deductions_or_empty b)
            \<and> (\<forall>r \<in> set news. cells r ''bill_id'' = Some (VNum (real i)))"
    using news(2,3) by blast
qed

theorem save_bill_atomic_witness:
  "fst (save_bill example_engine 100 sample_bill_missing_amount fresh_database)
     = Inl (KeyError ''amount'')
   \<and> snd (save_bill example_engine 100 sample_bill_missing_amount fresh_database)
     = fresh_database"
proof -
  have f: "fst (save_bill example_engine 100 sample_bill_missing_amount fresh_database)
             = Inl (KeyError ''amount'')"
    by (simp add: store_eval sample_bill_missing_amount_def sample_bill_def)
  from save_bill_atomic [THEN conjunct1, THEN mp, OF f] f show ?thesis by (rule conjI [rotated])
qed

section \<open>Properties of the import and of the exporters\<close>

lemma expected_columns_normal: "map normalize_column expected_columns = expected_columns"
  by (simp add: expected_columns_def normalize_column_def ascii_lower_def)

lemma joined_contains: "x \<in> set xs \<Longrightarrow> sublist x (str_join sep xs)"
proof (induction sep xs rule: str_join.induct)
  case (1 sep)
  then show ?case by simp
next
  case (2 sep y)
  then show ?case by simp
next
  case (3 sep y z zs)
  show ?case
  proof (cases "x = y")
    case True
    have "y @ sep @ str_join sep (z # zs) = [] @ y @ (sep @ str_join sep (z # zs))" by simp
    then show ?thesis unfolding True sublist_def str_join.simps by blast
  next
    case False
    with 3 have "sublist x (str_join sep (z # zs))" by simp
    then obtain ps ss where "str_join sep (z # zs) = ps @ x @ ss" by (auto simp: sublist_def)
    then have "y @ sep @ str_join sep (z # zs) = (y @ sep @ ps) @ x @ ss" by simp
    then show ?thesis unfolding sublist_def str_join.simps by blast
  qed
qed

lemma normalized_name_iff:
  "Some c \<in> (\<lambda>l. case l of Label s \<Rightarrow> Some (normalize_column s) | _ \<Rightarrow> None) ` set ls
     \<longleftrightarrow> c \<in> normalize_column ` set (text_labels ls)"
  by (induction ls) (auto simp: text_labels_def split: label.splits)

lemma missing_are_absent:
  "list_ex is_text_label (df_columns df) \<Longrightarrow>
   \<exists>labels. normalized_labels (df_columns df) = Inr labels
     \<and> missing_columns expected_columns labels = absent_columns df"
  by (simp add: normalized_labels_def missing_columns_def absent_columns_def
      normalized_name_iff)

lemma process_returns_frame_or_message:
  "(fst (process_emd_excel to_datetime to_numeric read_result) = None)
     = (snd (process_emd_excel to_datetime to_numeric read_result) \<noteq> None)"
  by (simp add: process_emd_excel_def Let_def split: sum.splits)

lemma check_text_columns:
  "list_all is_text_label (df_columns df) \<Longrightarrow> \<forall>i \<in> set ixs. i < length (df_columns df) \<Longrightarrow>
   \<exists>ws. check_columns dates_ok numbers_ok df ixs = Inr ws"
proof (induction ixs)
  case Nil
  show ?case by simp
next
  case (Cons i ixs)
  then obtain ws where ws: "check_columns dates_ok numbers_ok df ixs = Inr ws" by auto
  from Cons.prems have "is_text_label (df_columns df ! i)" by (simp add: list_all_length)
  then obtain c where "df_columns df ! i = Label c" by (cases "df_columns df ! i") simp_all
  with ws show ?case by simp
qed

lemma validate_text_frame:
  assumes ne: "\<not> df_empty df" and labelled: "list_all is_text_label (df_columns df)"
    and absent: "absent_columns df \<noteq> []"
  shows "\<exists>ws. validate_excel_structure dates_ok numbers_ok df expected_columns =
           Inr ([''Missing required columns: '' @ str_join '', '' (absent_columns df)], ws)"
proof -
  from ne have "df_columns df \<noteq> []" by (simp add: df_empty_def)
  with labelled have "list_ex is_text_label (df_columns df)"
    by (cases "df_columns df") simp_all
  from missing_are_absent [OF this] obtain labels where
    l: "normalized_labels (df_columns df) = Inr labels"
    and m: "missing_columns expected_columns labels = absent_columns df" by blast
  let ?empty = "map (\<lambda>i. df_columns df ! i)
                  (filter (\<lambda>i. list_all (\<lambda>v. v = VNone) (column_cells df i))
                          [0 ..< length (df_columns df)])"
  have "list_all is_text_label ?empty"
    using labelled by (auto simp: list_all_iff list_all_length)
  then obtain joined where j: "join_labels '', '' ?empty = Inr joined"
    by (simp add: join_labels_def)
  from check_text_columns [OF labelled, of "[0 ..< length (df_columns df)]" dates_ok numbers_ok]
  obtain ws where w: "check_columns dates_ok numbers_ok df [0 ..< length (df_columns df)] = Inr ws"
    by auto
  show ?thesis
    using ne l m j w absent
    by (simp add: validate_excel_structure_def Let_def expected_columns_normal)
qed

text \<open>
  Claim C7, as the code has it. When the frame has a text among its column labels and
  the text labels, lower-cased and with spaces turned into underscores, lack a column
  the EMD import expects, \<open>process_emd_excel\<close> returns no frame together with the
  message \<open>Missing columns: ...\<close>, which names exactly the expected columns that are
  absent. For every input it returns a frame or a message, never both and never an
  exception, and it takes and returns no store. \<open>validate_excel_structure\<close> reports
  that the file is empty for a frame without rows or columns, and the same missing
  columns as its only error for a frame whose labels are all text.
\<close>

theorem missing_columns_are_reported:
  assumes "list_ex is_text_label (df_columns df)"
    and "\<not> set expected_columns \<subseteq> normalize_column ` set (text_labels (df_columns df))"
  shows "process_emd_excel to_datetime to_numeric (Inr df) =
           (None, Some (''Missing columns: '' @ str_join '', '' (absent_columns df)))
         \<and> absent_columns df \<noteq> []
         \<and> set (absent_columns df)
             = set expected_columns - normalize_column ` set (text_labels (df_columns df))
         \<and> (\<forall>c \<in> set (absent_columns df). sublist c (str_join '', '' (absent_columns df)))
         \<and> ((fst (process_emd_excel to_datetime to_numeric read_result) = None)
              = (snd (process_emd_excel to_datetime to_numeric read_result) \<noteq> None))
         \<and> (df_empty df \<longrightarrow>
              validate_excel_structure dates_ok numbers_ok df expected_columns
                = Inr ([''Excel file is empty''], []))
         \<and> (\<not> df_empty df \<and> list_all is_text_label (df_columns df) \<longrightarrow>
              (\<exists>ws. validate_excel_structure dates_ok numbers_ok df expected_columns =
                 Inr ([''Missing required columns: '' @ str_join '', '' (absent_columns df)],
                      ws)))"
proof -
  have s: "set (absent_columns df)
             = set expected_columns - normalize_column ` set (text_labels (df_columns df))"
    by (auto simp: absent_columns_def)
  with assms(2) have ne: "absent_columns df \<noteq> []"
    by (metis Diff_eq_empty_iff set_empty)
  from missing_are_absent [OF assms(1)] obtain labels where
    "normalized_labels (df_columns df) = Inr labels"
    "missing_columns expected_columns labels = absent_columns df" by blast
  then have p: "process_emd_excel to_datetime to_numeric (Inr df) =
           (None, Some (''Missing columns: '' @ str_join '', '' (absent_columns df)))"
    using ne by (simp add: process_emd_excel_def Let_def)
  have e: "df_empty df \<longrightarrow>
              validate_excel_structure dates_ok numbers_ok df expected_columns
                = Inr ([''Excel file is empty''], [])"
    by (simp add: validate_excel_structure_def)
  have v: "\<not> df_empty df \<and> list_all is_text_label (df_columns df) \<longrightarrow>
              (\<exists>ws. validate_excel_structure dates_ok numbers_ok df expected_columns =
                 Inr ([''Missing required columns: '' @ str_join '', '' (absent_columns df)],
                      ws))"
    using validate_text_frame [OF _ _ ne] by blast
  have j: "\<forall>c \<in> set (absent_columns df). sublist c (str_join '', '' (absent_columns df))"
    by (simp add: joined_contains)
  from p ne s j process_returns_frame_or_message [of to_datetime to_numeric read_result] e v
  show ?thesis by (intro conjI)
qed

theorem missing_columns_are_reported_witness:
  "process_emd_excel id id (Inr emd_template) = (None, Some ''Missing columns: contractor_name'')"
proof -
  have m: "absent_columns emd_template = [''contractor_name'']"
    by (simp add: absent_columns_def expected_columns_def emd_template_def text_labels_def
        normalize_column_def ascii_lower_def)
  have t: "list_ex is_text_label (df_columns emd_template)"
    by (simp add: emd_template_def)
  have "set (absent_columns emd_template)
          = set expected_columns - normalize_column ` set (text_labels (df_columns emd_template))"
    by (auto simp: absent_columns_def)
  then have "\<not> set expected_columns
               \<subseteq> normalize_column ` set (text_labels (df_columns emd_template))"
    unfolding m by auto
  from missing_columns_are_reported [OF t this, of id id] show ?thesis
    unfolding m by simp
qed

theorem numeric_headers_counterexample:
  "process_emd_excel id id (Inr year_sheet) =
     (None, Some ''Error processing EMD Excel file: Can only use .str accessor with string values!'')
   \<and> process_emd_excel id id (Inr blank_sheet) =
     (None, Some ''Error processing EMD Excel file: Can only use .str accessor with string values!'')
   \<and> validate_excel_structure (\<lambda>c. True) (\<lambda>c. True) year_sheet expected_columns
       = Inl (AttributeError ''Can only use .str accessor with string values!'')"
  by (simp add: process_emd_excel_def validate_excel_structure_def normalized_labels_def
      str_accessor_error_def year_sheet_def blank_sheet_def df_empty_def)

text \<open>
  Claim C8, as the code has it. Without ReportLab the factory returns the fallback
  generator, whose attribute \<open>available\<close> is \<open>False\<close> and whose three render calls
  raise \<open>NotImplementedError\<close> with the install hint (and \<open>PDFGenerator()\<close> itself
  raises \<open>ImportError\<close>).
\<close>

theorem exporters_without_rendering_library:
  "get_pdf_generator False = Inr PDFGeneratorFallback
   \<and> available PDFGeneratorFallback = Inr False
   \<and> new_pdf_generator False = Inl (ImportError
        ''ReportLab is required for PDF generation. Install with: pip install reportlab'')
   \<and> create_bill_pdf build_bill PDFGeneratorFallback bill output_path = Inl requires_reportlab
   \<and> create_emd_refund_pdf build_emd PDFGeneratorFallback emd_data output_path
        = Inl requires_reportlab
   \<and> create_project_report_pdf build_project PDFGeneratorFallback project_data output_path
        = Inl requires_reportlab"
  by (simp add: get_pdf_generator_def new_pdf_generator_def create_bill_pdf_def
      create_emd_refund_pdf_def create_project_report_pdf_def)

theorem exporters_without_rendering_library_witness:
  "create_emd_refund_pdf (\<lambda>d. Inr ''pdf'') PDFGeneratorFallback sample_emd None
     = Inl (NotImplementedError
         ''PDF generation requires ReportLab. Install with: pip install reportlab'')"
  using exporters_without_rendering_library
    [where build_emd = "\<lambda>d. Inr ''pdf''" and emd_data = sample_emd and output_path = None]
  by (simp add: requires_reportlab_def)

theorem exporters_raise_counterexample:
  "get_pdf_generator False = Inr PDFGeneratorFallback
   \<and> create_bill_pdf (\<lambda>b. Inr ''pdf'') PDFGeneratorFallback sample_bill None
       = Inl (NotImplementedError
           ''PDF generation requires ReportLab. Install with: pip install reportlab'')
   \<and> create_formatted_excel False (\<lambda>d. Inr ''sheets'') (\<lambda>d t. Inr ''styled'') sample_emd None
        ''PWD Report'' = Inl (ImportError (''No module named '' @ quoted ''openpyxl''))"
  by (simp add: get_pdf_generator_def create_bill_pdf_def requires_reportlab_def
      create_formatted_excel_def write_excel_file_def missing_openpyxl_def)

end
